theory Spec2Isabelle
  imports Main
begin

section \<open>Values\<close>

text \<open>
  The store of \<^verbatim>\<open>src/src/zustand.ts\<close> is a JavaScript object: a finite map from key
  names to values. The values the generic code puts there, and the ones it reads back, are
  the constructors of \<open>val\<close>; every value the code only passes on without looking into it
  (extension fields, thrown plain objects, query parameters) is of the opaque type \<open>'x\<close>.
  \<open>'r\<close> is the resource type \<^verbatim>\<open>T\<close>, \<open>'p\<close> the payload type \<^verbatim>\<open>Partial<T>\<close>.
  Numbers are modelled as integers: the paging fields are counts, and \<^verbatim>\<open>NaN\<close> and
  fractions are outside the model.
\<close>

datatype action = FetchAll | FetchOne | Create | Update | Remove

fun action_key :: "action \<Rightarrow> string" where
  "action_key FetchAll = ''fetchAll''"
| "action_key FetchOne = ''fetchOne''"
| "action_key Create = ''create''"
| "action_key Update = ''update''"
| "action_key Remove = ''remove''"

record meta =
  currentPage :: int
  totalPages :: int
  totalCount :: int

datatype error_obj = ErrorObject (err_name: string) (err_message: string)

text \<open>
  \<open>VBase a\<close> is the closure the factory creates for action \<open>a\<close> of this very store;
  \<open>VForeign x\<close> is any other value (an extension's field or function).
\<close>

datatype ('r, 'x) val =
    VNull
  | VBool bool
  | VList "'r list"
  | VRes 'r
  | VErr error_obj
  | VMeta meta
  | VBase action
  | VForeign 'x

type_synonym ('r, 'x) obj = "string \<rightharpoonup> ('r, 'x) val"

subsection \<open>Rejection values and \<^verbatim>\<open>String(error)\<close>\<close>

text \<open>
  A promise can be rejected with any value, and every \<^verbatim>\<open>catch\<close> block evaluates
  \<^verbatim>\<open>error instanceof Error ? error : new Error(String(error))\<close> on it. The block looks at
  the value in these two ways only, so a value is modelled by what they give.
  \<open>ErrorInstance\<close> are the values for which \<^verbatim>\<open>instanceof Error\<close> holds. The others are
  the primitives \<^verbatim>\<open>undefined\<close>, \<^verbatim>\<open>null\<close>, booleans and strings; \<open>PObj\<close>, an object
  that inherits \<^verbatim>\<open>toString\<close> from \<^verbatim>\<open>Object.prototype\<close> and has no string tag (a parsed
  response body, as a rule); and \<open>PPrinted x s\<close>, any other value \<open>x\<close> that \<^verbatim>\<open>String\<close>
  converts, with the text \<open>s\<close> it gives (a number, an array, an object with its own
  \<^verbatim>\<open>toString\<close>).
\<close>

datatype 'x plain = PUndefined | PNull | PBool bool | PStr string | PObj 'x | PPrinted 'x string

datatype 'x thrown = ErrorInstance error_obj | NonError "'x plain"

text \<open>
  \<^verbatim>\<open>String\<close> does not convert every value: on an object without prototype
  (\<^verbatim>\<open>Object.create(null)\<close>), or with an own \<^verbatim>\<open>toString\<close> that is not callable (the
  parsed body \<^verbatim>\<open>{"toString": 1}\<close>) or that throws, the conversion throws.
  \<open>Unconvertible x t\<close> is a value \<open>x\<close> that is not an error object and on which
  \<^verbatim>\<open>String(x)\<close> throws \<open>t\<close>. The conversion is taken to have no other effect.
\<close>

datatype 'x rejection = Normal "'x thrown" | Unconvertible 'x "'x rejection"

fun digits :: "nat \<Rightarrow> string" where
  "digits n = (if n < 10 then [''0123456789'' ! n]
               else digits (n div 10) @ [''0123456789'' ! (n mod 10)])"

declare digits.simps [simp del]

definition dec_string :: "int \<Rightarrow> string" where
  "dec_string i = (if i < 0 then ''-'' @ digits (nat (- i)) else digits (nat i))"

fun js_String :: "'x plain \<Rightarrow> string" where
  "js_String PUndefined = ''undefined''"
| "js_String PNull = ''null''"
| "js_String (PBool b) = (if b then ''true'' else ''false'')"
| "js_String (PStr s) = s"
| "js_String (PObj _) = ''[object Object]''"
| "js_String (PPrinted _ s) = s"

text \<open>
  \<^verbatim>\<open>error instanceof Error ? error : new Error(String(error))\<close>, on a value the
  conversion accepts.
\<close>

fun to_Error :: "'x thrown \<Rightarrow> error_obj" where
  "to_Error (ErrorInstance e) = e"
| "to_Error (NonError v) = ErrorObject ''Error'' (js_String v)"

datatype ('v, 'x) settled = Resolved 'v | Rejected "'x rejection"

text \<open>A promise that did not reject with a value \<^verbatim>\<open>String\<close> cannot convert.\<close>

fun catchable :: "('v, 'x) settled \<Rightarrow> bool" where
  "catchable (Resolved _) = True"
| "catchable (Rejected (Normal _)) = True"
| "catchable (Rejected (Unconvertible _ _)) = False"

subsection \<open>Identifiers and paths\<close>

text \<open>
  \<^verbatim>\<open>id: string | number\<close>, and the template literal \<^verbatim>\<open>`${endpoint}/${id}`\<close>. A
  numeric id is an integer and prints in decimal, as JavaScript prints every integer below
  \<open>10\<^sup>2\<^sup>1\<close>.
\<close>

datatype ident = IdStr string | IdNum int

fun id_text :: "ident \<Rightarrow> string" where
  "id_text (IdStr s) = s"
| "id_text (IdNum n) = dec_string n"

definition item_path :: "string \<Rightarrow> ident \<Rightarrow> string" where
  "item_path endpoint ident = endpoint @ ''/'' @ id_text ident"

section \<open>The wrapper as seen from the store\<close>

text \<open>
  \<^verbatim>\<open>apiClient\<close> is imported from \<^verbatim>\<open>./api\<close>; the store only calls it. A call is
  recorded with the arguments it was given: \<^verbatim>\<open>fetchAll\<close> passes two arguments to
  \<^verbatim>\<open>get\<close>, \<^verbatim>\<open>fetchOne\<close> one.
\<close>

type_synonym 'x params = "(string \<times> 'x) list"

datatype ('p, 'x) api_call =
    ApiGet string "'x params option"
  | ApiPost string 'p
  | ApiPut string 'p
  | ApiDelete string

text \<open>The interface \<^verbatim>\<open>ApiResponse\<close> declared inside \<^verbatim>\<open>fetchAll\<close>.\<close>

record 'r api_response =
  objects :: "'r list option"
  current_page :: "int option"
  num_pages :: "int option"
  total_count :: "int option"

datatype ('r, 'p, 'x) event =
    SetState "(string \<times> ('r, 'x) val) list"
  | WrapperCall "('p, 'x) api_call"

record ('r, 'p, 'x) world =
  store :: "('r, 'x) obj"
  trace :: "('r, 'p, 'x) event list"

text \<open>
  The environment of a store. Each wrapper method answers a call with a settled promise and
  may depend on everything that happened before (the trace). \<^verbatim>\<open>get\<close> is used at two
  type instances, \<^verbatim>\<open>get<ApiResponse>\<close> and \<^verbatim>\<open>get<T>\<close>. \<open>call_foreign\<close> is what
  happens when a value other than this store's own \<^verbatim>\<open>fetchAll\<close> closure is found under
  the key \<^verbatim>\<open>fetchAll\<close>, called without arguments and awaited.
\<close>

record ('r, 'p, 'x) environment =
  get_list :: "('r, 'p, 'x) event list \<Rightarrow> string \<Rightarrow> 'x params \<Rightarrow> ('r api_response, 'x) settled"
  get_item :: "('r, 'p, 'x) event list \<Rightarrow> string \<Rightarrow> ('r, 'x) settled"
  post :: "('r, 'p, 'x) event list \<Rightarrow> string \<Rightarrow> 'p \<Rightarrow> ('r, 'x) settled"
  put :: "('r, 'p, 'x) event list \<Rightarrow> string \<Rightarrow> 'p \<Rightarrow> ('r, 'x) settled"
  delete :: "('r, 'p, 'x) event list \<Rightarrow> string \<Rightarrow> (unit, 'x) settled"
  call_foreign :: "('r, 'x) val option \<Rightarrow> ('r, 'p, 'x) world
                     \<Rightarrow> (unit, 'x) settled \<times> ('r, 'p, 'x) world"

section \<open>The store\<close>

text \<open>
  Zustand's \<^verbatim>\<open>set(partial)\<close> merges the partial object into the state
  (\<^verbatim>\<open>Object.assign({}, state, partial)\<close>). The trace keeps the partial object as written.
\<close>

definition set_state ::
  "(string \<times> ('r, 'x) val) list \<Rightarrow> ('r, 'p, 'x) world \<Rightarrow> ('r, 'p, 'x) world" where
  "set_state partial w = w\<lparr>store := store w ++ map_of partial, trace := trace w @ [SetState partial]\<rparr>"

definition issue :: "('p, 'x) api_call \<Rightarrow> ('r, 'p, 'x) world \<Rightarrow> ('r, 'p, 'x) world" where
  "issue c w = w\<lparr>trace := trace w @ [WrapperCall c]\<rparr>"

text \<open>The JavaScript operator \<^verbatim>\<open>a || b\<close> on an optional number: \<^verbatim>\<open>undefined\<close> and \<open>0\<close> are falsy.\<close>

definition or_else :: "int option \<Rightarrow> int \<Rightarrow> int" where
  "or_else a b = (case a of None \<Rightarrow> b | Some n \<Rightarrow> if n = 0 then b else n)"

text \<open>The object passed to \<^verbatim>\<open>set\<close> on the success path of \<^verbatim>\<open>fetchAll\<close> (lines 81-89).\<close>

definition fetched_meta :: "'r api_response \<Rightarrow> meta" where
  "fetched_meta data =
     \<lparr>currentPage = or_else (current_page data) 1,
      totalPages = or_else (num_pages data) 1,
      totalCount = or_else (total_count data)
                     (case objects data of Some os \<Rightarrow> int (length os) | None \<Rightarrow> 0)\<rparr>"

definition fetched_patch :: "'r api_response \<Rightarrow> (string \<times> ('r, 'x) val) list" where
  "fetched_patch data =
     [(''items'', VList (case objects data of Some os \<Rightarrow> os | None \<Rightarrow> [])),
      (''meta'', VMeta (fetched_meta data)),
      (''loading'', VBool False)]"

text \<open>The object every action passes to \<^verbatim>\<open>set\<close> first, and the one of every \<^verbatim>\<open>catch\<close> block.\<close>

definition start_patch :: "(string \<times> ('r, 'x) val) list" where
  "start_patch = [(''loading'', VBool True), (''error'', VNull)]"

definition catch_patch :: "'x thrown \<Rightarrow> (string \<times> ('r, 'x) val) list" where
  "catch_patch e = [(''error'', VErr (to_Error e)), (''loading'', VBool False)]"

text \<open>
  A \<^verbatim>\<open>catch\<close> block, with the value \<open>undef\<close> its action returns after it (nothing, or
  \<^verbatim>\<open>undefined\<close>). The argument of \<^verbatim>\<open>set\<close> is evaluated first: when \<^verbatim>\<open>String(error)\<close>
  throws, \<^verbatim>\<open>set\<close> is not called, the exception leaves the \<^verbatim>\<open>catch\<close> block and the
  action's promise rejects with it.
\<close>

definition catch_block ::
  "'v \<Rightarrow> 'x rejection \<Rightarrow> ('r, 'p, 'x) world \<Rightarrow> ('v, 'x) settled \<times> ('r, 'p, 'x) world" where
  "catch_block undef r w =
     (case r of
        Normal e \<Rightarrow> (Resolved undef, set_state (catch_patch e) w)
      | Unconvertible _ t \<Rightarrow> (Rejected t, w))"

subsection \<open>\<^verbatim>\<open>fetchAll\<close> (lines 71-93)\<close>

text \<open>
  An \<^verbatim>\<open>async\<close> function runs synchronously up to its first \<^verbatim>\<open>await\<close> and is resumed
  when the awaited promise settles. Each action is therefore written in two halves:
  \<open>_begin\<close> is the synchronous part, ending with the wrapper call issued; \<open>_resume\<close> is the
  continuation, given the settled promise. The result of an action is the way its own
  promise settles, with the world it leaves.
\<close>

definition fetchAll_begin :: "string \<Rightarrow> 'x params \<Rightarrow> ('r, 'p, 'x) world \<Rightarrow> ('r, 'p, 'x) world" where
  "fetchAll_begin endpoint params w = issue (ApiGet endpoint (Some params)) (set_state start_patch w)"

definition fetchAll_resume ::
  "('r api_response, 'x) settled \<Rightarrow> ('r, 'p, 'x) world \<Rightarrow> (unit, 'x) settled \<times> ('r, 'p, 'x) world" where
  "fetchAll_resume outcome w =
     (case outcome of
        Resolved data \<Rightarrow> (Resolved (), set_state (fetched_patch data) w)
      | Rejected r \<Rightarrow> catch_block () r w)"

definition fetchAll ::
  "('r, 'p, 'x) environment \<Rightarrow> string \<Rightarrow> 'x params \<Rightarrow> ('r, 'p, 'x) world
     \<Rightarrow> (unit, 'x) settled \<times> ('r, 'p, 'x) world" where
  "fetchAll api endpoint params w =
     (let w1 = fetchAll_begin endpoint params w
      in fetchAll_resume (get_list api (trace w1) endpoint params) w1)"

subsection \<open>\<^verbatim>\<open>fetchOne\<close> (lines 95-103)\<close>

definition fetchOne_begin :: "string \<Rightarrow> ident \<Rightarrow> ('r, 'p, 'x) world \<Rightarrow> ('r, 'p, 'x) world" where
  "fetchOne_begin endpoint ident w = issue (ApiGet (item_path endpoint ident) None) (set_state start_patch w)"

definition fetchOne_resume ::
  "('r, 'x) settled \<Rightarrow> ('r, 'p, 'x) world \<Rightarrow> (unit, 'x) settled \<times> ('r, 'p, 'x) world" where
  "fetchOne_resume outcome w =
     (case outcome of
        Resolved data \<Rightarrow> (Resolved (), set_state [(''item'', VRes data), (''loading'', VBool False)] w)
      | Rejected r \<Rightarrow> catch_block () r w)"

definition fetchOne ::
  "('r, 'p, 'x) environment \<Rightarrow> string \<Rightarrow> ident \<Rightarrow> ('r, 'p, 'x) world
     \<Rightarrow> (unit, 'x) settled \<times> ('r, 'p, 'x) world" where
  "fetchOne api endpoint ident w =
     (let w1 = fetchOne_begin endpoint ident w
      in fetchOne_resume (get_item api (trace w1) (item_path endpoint ident)) w1)"

subsection \<open>The refetch \<^verbatim>\<open>await get().fetchAll()\<close>\<close>

text \<open>
  The mutating actions look \<^verbatim>\<open>fetchAll\<close> up in the current state and call it without
  arguments, so \<^verbatim>\<open>params\<close> takes its default \<^verbatim>\<open>{}\<close>.
\<close>

definition refetch ::
  "('r, 'p, 'x) environment \<Rightarrow> string \<Rightarrow> ('r, 'p, 'x) world \<Rightarrow> (unit, 'x) settled \<times> ('r, 'p, 'x) world" where
  "refetch api endpoint w =
     (case store w ''fetchAll'' of
        Some (VBase FetchAll) \<Rightarrow> fetchAll api endpoint [] w
      | v \<Rightarrow> call_foreign api v w)"

text \<open>
  What follows a successful mutation inside the \<^verbatim>\<open>try\<close> block: \<^verbatim>\<open>set({ loading: false })\<close>,
  the refetch, and the \<^verbatim>\<open>return\<close> of \<open>result\<close>; a rejection of the refetch lands in the
  same \<^verbatim>\<open>catch\<close> block as a rejection of the mutation.
\<close>

definition after_mutation ::
  "('r, 'p, 'x) environment \<Rightarrow> string \<Rightarrow> 'v \<Rightarrow> 'v \<Rightarrow> ('r, 'p, 'x) world
     \<Rightarrow> ('v, 'x) settled \<times> ('r, 'p, 'x) world" where
  "after_mutation api endpoint result undef w =
     (let w1 = set_state [(''loading'', VBool False)] w
      in case refetch api endpoint w1 of
           (Resolved _, w2) \<Rightarrow> (Resolved result, w2)
         | (Rejected r, w2) \<Rightarrow> catch_block undef r w2)"

subsection \<open>\<^verbatim>\<open>create\<close> (lines 105-117)\<close>

text \<open>The result \<^verbatim>\<open>T | undefined\<close> is an option: \<open>None\<close> is \<^verbatim>\<open>undefined\<close>.\<close>

definition create_begin :: "string \<Rightarrow> 'p \<Rightarrow> ('r, 'p, 'x) world \<Rightarrow> ('r, 'p, 'x) world" where
  "create_begin endpoint payload w = issue (ApiPost endpoint payload) (set_state start_patch w)"

definition create_resume ::
  "('r, 'p, 'x) environment \<Rightarrow> string \<Rightarrow> ('r, 'x) settled \<Rightarrow> ('r, 'p, 'x) world
     \<Rightarrow> ('r option, 'x) settled \<times> ('r, 'p, 'x) world" where
  "create_resume api endpoint outcome w =
     (case outcome of
        Resolved createdData \<Rightarrow> after_mutation api endpoint (Some createdData) None w
      | Rejected r \<Rightarrow> catch_block None r w)"

definition create ::
  "('r, 'p, 'x) environment \<Rightarrow> string \<Rightarrow> 'p \<Rightarrow> ('r, 'p, 'x) world
     \<Rightarrow> ('r option, 'x) settled \<times> ('r, 'p, 'x) world" where
  "create api endpoint payload w =
     (let w1 = create_begin endpoint payload w
      in create_resume api endpoint (post api (trace w1) endpoint payload) w1)"

subsection \<open>\<^verbatim>\<open>update\<close> (lines 119-131)\<close>

definition update_begin :: "string \<Rightarrow> ident \<Rightarrow> 'p \<Rightarrow> ('r, 'p, 'x) world \<Rightarrow> ('r, 'p, 'x) world" where
  "update_begin endpoint ident payload w =
     issue (ApiPut (item_path endpoint ident) payload) (set_state start_patch w)"

definition update_resume ::
  "('r, 'p, 'x) environment \<Rightarrow> string \<Rightarrow> ('r, 'x) settled \<Rightarrow> ('r, 'p, 'x) world
     \<Rightarrow> ('r option, 'x) settled \<times> ('r, 'p, 'x) world" where
  "update_resume api endpoint outcome w =
     (case outcome of
        Resolved updatedData \<Rightarrow> after_mutation api endpoint (Some updatedData) None w
      | Rejected r \<Rightarrow> catch_block None r w)"

definition update ::
  "('r, 'p, 'x) environment \<Rightarrow> string \<Rightarrow> ident \<Rightarrow> 'p \<Rightarrow> ('r, 'p, 'x) world
     \<Rightarrow> ('r option, 'x) settled \<times> ('r, 'p, 'x) world" where
  "update api endpoint ident payload w =
     (let w1 = update_begin endpoint ident payload w
      in update_resume api endpoint (put api (trace w1) (item_path endpoint ident) payload) w1)"

subsection \<open>\<^verbatim>\<open>remove\<close> (lines 133-142)\<close>

definition remove_begin :: "string \<Rightarrow> ident \<Rightarrow> ('r, 'p, 'x) world \<Rightarrow> ('r, 'p, 'x) world" where
  "remove_begin endpoint ident w = issue (ApiDelete (item_path endpoint ident)) (set_state start_patch w)"

definition remove_resume ::
  "('r, 'p, 'x) environment \<Rightarrow> string \<Rightarrow> (unit, 'x) settled \<Rightarrow> ('r, 'p, 'x) world
     \<Rightarrow> (unit, 'x) settled \<times> ('r, 'p, 'x) world" where
  "remove_resume api endpoint outcome w =
     (case outcome of
        Resolved _ \<Rightarrow> after_mutation api endpoint () () w
      | Rejected r \<Rightarrow> catch_block () r w)"

definition remove ::
  "('r, 'p, 'x) environment \<Rightarrow> string \<Rightarrow> ident \<Rightarrow> ('r, 'p, 'x) world
     \<Rightarrow> (unit, 'x) settled \<times> ('r, 'p, 'x) world" where
  "remove api endpoint ident w =
     (let w1 = remove_begin endpoint ident w
      in remove_resume api endpoint (delete api (trace w1) (item_path endpoint ident)) w1)"

section \<open>The factory \<^verbatim>\<open>createGenericStore\<close> (lines 43-148)\<close>

text \<open>
  The declared signature is \<^verbatim>\<open>createGenericStore(endpoint, extendStore?)\<close>: the second
  argument is absent or a function \<^verbatim>\<open>(set, get) => TExtension\<close>, modelled by the object
  it returns. TypeScript's types are erased at run time, so a caller that ignores the
  declared type can pass anything; \<open>ArgObject\<close> is an options object
  \<^verbatim>\<open>{ actions, extendStore }\<close> in that position. It is truthy, so line 145 calls it, and
  calling an object throws a \<^verbatim>\<open>TypeError\<close> out of the factory.
\<close>

record ('r, 'x) options =
  actions :: "action list option"
  extendStore :: "('r, 'x) obj option"

datatype ('r, 'x) second_arg =
    ArgUndefined
  | ArgFunction "('r, 'x) obj"
  | ArgObject "('r, 'x) options"

datatype factory_error = NotAFunction

text \<open>The object literal of lines 58-143, before the spread of the extension.\<close>

definition base_state :: "('r, 'x) obj" where
  "base_state = map_of
     [(''items'', VList []),
      (''item'', VNull),
      (''loading'', VBool False),
      (''error'', VNull),
      (''meta'', VMeta \<lparr>currentPage = 1, totalPages = 1, totalCount = 0\<rparr>),
      (''fetchAll'', VBase FetchAll),
      (''fetchOne'', VBase FetchOne),
      (''create'', VBase Create),
      (''update'', VBase Update),
      (''remove'', VBase Remove)]"

text \<open>
  Line 145 spreads \<^verbatim>\<open>extendStore ? extendStore(set, get) : defaultExtend(set, get)\<close> after
  the base keys: keys of the extension replace base keys of the same name. The endpoint
  lives in the closures only; the actions above take it as a parameter.
\<close>

definition createGenericStore ::
  "string \<Rightarrow> ('r, 'x) second_arg \<Rightarrow> factory_error + ('r, 'x) obj" where
  "createGenericStore endpoint arg =
     (case arg of
        ArgUndefined \<Rightarrow> Inr (base_state ++ Map.empty)
      | ArgFunction extension \<Rightarrow> Inr (base_state ++ extension)
      | ArgObject _ \<Rightarrow> Inl NotAFunction)"

text \<open>The store right after creation: nothing has happened yet.\<close>

definition fresh :: "('r, 'x) obj \<Rightarrow> ('r, 'p, 'x) world" where
  "fresh st = \<lparr>store = st, trace = []\<rparr>"

fun calls :: "('r, 'p, 'x) event list \<Rightarrow> ('p, 'x) api_call list" where
  "calls [] = []"
| "calls (SetState _ # es) = calls es"
| "calls (WrapperCall c # es) = c # calls es"

section \<open>The HTTP wrapper\<close>

text \<open>
  The module \<^verbatim>\<open>./api\<close> is not among the sources; only its tests
  (\<^verbatim>\<open>src/src/api.test.ts\<close>) and the README are. The definitions of this section follow
  section 4.1 of the specification, with the literal messages and the request shapes taken
  from the tests.
\<close>

datatype http_method = GET | POST | PUT | DELETE

text \<open>
  Modelled from the spec: the network call a wrapper operation hands to the transport
  (\<^verbatim>\<open>api.ts\<close> is missing). The four verbs send a method, a path and an optional
  params-or-body value; the upload sends a path and a form with a multipart header.
\<close>

datatype 'b net_request =
    NetRequest http_method string "'b option"
  | NetUpload string 'b

text \<open>
  Modelled from the spec: a transport failure (\<^verbatim>\<open>api.ts\<close> is missing). It may carry a
  server response (status and body), may say that the request was sent, and has a message.
\<close>

record 'b failure =
  response :: "(nat \<times> 'b) option"
  request_sent :: bool
  failure_message :: string

text \<open>Modelled from the spec: the error kinds of sections 4.1 and 7 (\<^verbatim>\<open>api.ts\<close> is missing).\<close>

datatype 'b wrapper_error =
    NotInitialized string
  | ApiError 'b
  | NetworkError string
  | RequestSetupError string

type_synonym 'b transport = "'b net_request \<Rightarrow> 'b failure + (nat \<times> 'b)"

text \<open>
  Modelled from the spec: the wrapper's state (\<^verbatim>\<open>api.ts\<close> is missing): the transport
  singleton, absent until the initialization call, and the network calls made so far.
\<close>

record 'b wrapper =
  singleton :: "'b transport option"
  network_calls :: "'b net_request list"

definition uninitialized :: "'b wrapper" where
  "uninitialized = \<lparr>singleton = None, network_calls = []\<rparr>"

text \<open>
  Modelled from the spec: \<^verbatim>\<open>initialize(config)\<close> (\<^verbatim>\<open>api.ts\<close> is missing) replaces the
  singleton by the transport built from the configuration; the argument is that transport.
\<close>

definition initApiClient :: "'b transport \<Rightarrow> 'b wrapper \<Rightarrow> 'b wrapper" where
  "initApiClient t w = w\<lparr>singleton := Some t\<rparr>"

definition not_initialized_message :: string where
  "not_initialized_message = ''apiClient not initialized. Call initApiClient(config) first.''"

text \<open>
  Modelled from the spec: the error normalization of section 4.1 (\<^verbatim>\<open>api.ts\<close> is
  missing; the README calls it \<^verbatim>\<open>handleError\<close>).
\<close>

definition handleError :: "'b failure \<Rightarrow> 'b wrapper_error" where
  "handleError f =
     (case response f of
        Some (status, body) \<Rightarrow> ApiError body
      | None \<Rightarrow>
          if request_sent f then NetworkError ''No response from server''
          else RequestSetupError (''Request failed: '' @ failure_message f))"

text \<open>
  Modelled from the spec: the one request path all operations funnel through
  (\<^verbatim>\<open>api.ts\<close> is missing). Without a transport it fails before any network call; otherwise
  it makes exactly one network call and returns the body of the response.
\<close>

definition request ::
  "'b net_request \<Rightarrow> 'b wrapper \<Rightarrow> ('b wrapper_error + 'b) \<times> 'b wrapper" where
  "request r w =
     (case singleton w of
        None \<Rightarrow> (Inl (NotInitialized not_initialized_message), w)
      | Some t \<Rightarrow>
          (let w1 = w\<lparr>network_calls := network_calls w @ [r]\<rparr>
           in case t r of
                Inr (status, body) \<Rightarrow> (Inr body, w1)
              | Inl f \<Rightarrow> (Inl (handleError f), w1)))"

text \<open>Modelled from the spec: the five verb operations of section 4.1 (\<^verbatim>\<open>api.ts\<close> is missing).\<close>

datatype 'b operation =
    OpGet string "'b option"
  | OpPost string "'b option"
  | OpPut string "'b option"
  | OpDelete string "'b option"
  | OpPostFile string 'b

fun wire :: "'b operation \<Rightarrow> 'b net_request" where
  "wire (OpGet path params) = NetRequest GET path params"
| "wire (OpPost path body) = NetRequest POST path body"
| "wire (OpPut path body) = NetRequest PUT path body"
| "wire (OpDelete path params) = NetRequest DELETE path params"
| "wire (OpPostFile path form) = NetUpload path form"

definition perform :: "'b operation \<Rightarrow> 'b wrapper \<Rightarrow> ('b wrapper_error + 'b) \<times> 'b wrapper" where
  "perform op w = request (wire op) w"

section \<open>The claims of the specification, as it words them\<close>

text \<open>
  Section 4.2 of the specification: the produced state holds exactly the selected actions,
  all five when no selection is given, and an unselected action is absent.
\<close>

definition spec_exposes_selection ::
  "action list option \<Rightarrow> factory_error + ('r, 'x) obj \<Rightarrow> bool" where
  "spec_exposes_selection selection r =
     (case r of
        Inl _ \<Rightarrow> False
      | Inr st \<Rightarrow>
          list_all
            (\<lambda>a. st (action_key a) =
                   (if (case selection of None \<Rightarrow> True | Some as \<Rightarrow> a \<in> set as)
                    then Some (VBase a) else None))
            [FetchAll, FetchOne, Create, Update, Remove])"

text \<open>
  Section 4.2 of the specification: the paging fallbacks of \<^verbatim>\<open>fetchAll\<close> apply when a
  field is absent.
\<close>

definition spec_meta :: "'r api_response \<Rightarrow> meta" where
  "spec_meta data =
     \<lparr>currentPage = (case current_page data of Some n \<Rightarrow> n | None \<Rightarrow> 1),
      totalPages = (case num_pages data of Some n \<Rightarrow> n | None \<Rightarrow> 1),
      totalCount = (case total_count data of
                      Some n \<Rightarrow> n
                    | None \<Rightarrow> (case objects data of Some os \<Rightarrow> int (length os) | None \<Rightarrow> 0))\<rparr>"

section \<open>Test doubles\<close>

text \<open>
  The mocks of \<^verbatim>\<open>src/src/zustand.test.ts\<close>: every wrapper method answers with a fixed
  settled promise (\<^verbatim>\<open>mockResolvedValue\<close>, \<^verbatim>\<open>mockRejectedValue\<close>).
\<close>

definition mocked ::
  "('r api_response, 'x) settled \<Rightarrow> ('r, 'x) settled \<Rightarrow> (unit, 'x) settled
     \<Rightarrow> ('r, 'p, 'x) environment" where
  "mocked list_answer item_answer delete_answer =
     \<lparr>get_list = (\<lambda>_ _ _. list_answer),
      get_item = (\<lambda>_ _. item_answer),
      post = (\<lambda>_ _ _. item_answer),
      put = (\<lambda>_ _ _. item_answer),
      delete = (\<lambda>_ _. delete_answer),
      call_foreign = (\<lambda>_ w. (Rejected (Normal (NonError PUndefined)), w))\<rparr>"

section \<open>Basic facts about the store\<close>

lemma store_set_state:
  "store (set_state partial w) k = (case map_of partial k of None \<Rightarrow> store w k | Some v \<Rightarrow> Some v)"
  by (simp add: set_state_def map_add_def)

lemma trace_set_state: "trace (set_state partial w) = trace w @ [SetState partial]"
  by (simp add: set_state_def)

lemma store_issue: "store (issue c w) = store w"
  by (simp add: issue_def)

lemma trace_issue: "trace (issue c w) = trace w @ [WrapperCall c]"
  by (simp add: issue_def)

lemmas world_simps = store_set_state trace_set_state store_issue trace_issue

lemmas begin_defs = fetchAll_begin_def fetchOne_begin_def create_begin_def update_begin_def
  remove_begin_def

lemma begin_loading:
  "store (fetchAll_begin endpoint params w) ''loading'' = Some (VBool True)"
  "store (fetchOne_begin endpoint ident w) ''loading'' = Some (VBool True)"
  "store (create_begin endpoint payload w) ''loading'' = Some (VBool True)"
  "store (update_begin endpoint ident payload w) ''loading'' = Some (VBool True)"
  "store (remove_begin endpoint ident w) ''loading'' = Some (VBool True)"
  by (simp_all add: begin_defs world_simps start_patch_def)

lemma begin_error:
  "store (fetchAll_begin endpoint params w) ''error'' = Some VNull"
  "store (fetchOne_begin endpoint ident w) ''error'' = Some VNull"
  "store (create_begin endpoint payload w) ''error'' = Some VNull"
  "store (update_begin endpoint ident payload w) ''error'' = Some VNull"
  "store (remove_begin endpoint ident w) ''error'' = Some VNull"
  by (simp_all add: begin_defs world_simps start_patch_def)

lemma begin_trace:
  "trace (fetchAll_begin endpoint params w)
     = trace w @ [SetState start_patch, WrapperCall (ApiGet endpoint (Some params))]"
  "trace (fetchOne_begin endpoint ident w)
     = trace w @ [SetState start_patch, WrapperCall (ApiGet (item_path endpoint ident) None)]"
  "trace (create_begin endpoint payload w)
     = trace w @ [SetState start_patch, WrapperCall (ApiPost endpoint payload)]"
  "trace (update_begin endpoint ident payload w)
     = trace w @ [SetState start_patch, WrapperCall (ApiPut (item_path endpoint ident) payload)]"
  "trace (remove_begin endpoint ident w)
     = trace w @ [SetState start_patch, WrapperCall (ApiDelete (item_path endpoint ident))]"
  by (simp_all add: begin_defs world_simps)

lemma begin_keeps_fetchAll:
  "store (create_begin endpoint payload w) ''fetchAll'' = store w ''fetchAll''"
  "store (update_begin endpoint ident payload w) ''fetchAll'' = store w ''fetchAll''"
  "store (remove_begin endpoint ident w) ''fetchAll'' = store w ''fetchAll''"
  by (simp_all add: begin_defs world_simps start_patch_def)

lemma begin_frame:
  assumes "k \<noteq> ''error''" and "k \<noteq> ''loading''"
  shows "store (fetchAll_begin endpoint params w) k = store w k"
    and "store (fetchOne_begin endpoint ident w) k = store w k"
  using assms by (simp_all add: begin_defs world_simps start_patch_def)

text \<open>The two ways out of a \<^verbatim>\<open>catch\<close> block.\<close>

lemma catch_block_Normal:
  "catch_block undef (Normal e) w = (Resolved undef, set_state (catch_patch e) w)"
  by (simp add: catch_block_def)

lemma catch_block_Unconvertible:
  "catch_block undef (Unconvertible x t) w = (Rejected t, w)"
  by (simp add: catch_block_def)

lemma caught:
  "store (set_state (catch_patch e) w) ''error'' = Some (VErr (to_Error e))"
  "store (set_state (catch_patch e) w) ''loading'' = Some (VBool False)"
  "trace (set_state (catch_patch e) w)
     = trace w @ [SetState [(''error'', VErr (to_Error e)), (''loading'', VBool False)]]"
  by (simp_all add: world_simps catch_patch_def)

lemma caught_frame:
  "k \<noteq> ''error'' \<Longrightarrow> k \<noteq> ''loading'' \<Longrightarrow> store (set_state (catch_patch e) w) k = store w k"
  by (simp add: world_simps catch_patch_def)

lemma catch_block_frame:
  "k \<noteq> ''error'' \<Longrightarrow> k \<noteq> ''loading'' \<Longrightarrow> store (snd (catch_block undef r w)) k = store w k"
  by (cases r) (simp_all add: catch_block_def caught_frame)

lemma catch_block_trace:
  "trace (snd (catch_block undef r w))
     = trace w @ (case r of
                    Normal e \<Rightarrow> [SetState [(''error'', VErr (to_Error e)), (''loading'', VBool False)]]
                  | Unconvertible x t \<Rightarrow> [])"
  by (cases r) (simp_all add: catch_block_def caught)

text \<open>\<^verbatim>\<open>fetchAll\<close> and \<^verbatim>\<open>fetchOne\<close>, by the answer of the wrapper.\<close>

lemma fetchAll_success:
  assumes "get_list api (trace (fetchAll_begin endpoint params w)) endpoint params = Resolved data"
  shows "fetchAll api endpoint params w
           = (Resolved (), set_state (fetched_patch data) (fetchAll_begin endpoint params w))"
  using assms by (simp add: fetchAll_def fetchAll_resume_def Let_def)

lemma fetchAll_rejected:
  assumes "get_list api (trace (fetchAll_begin endpoint params w)) endpoint params = Rejected r"
  shows "fetchAll api endpoint params w = catch_block () r (fetchAll_begin endpoint params w)"
  using assms by (simp add: fetchAll_def fetchAll_resume_def Let_def)

lemma fetchAll_failure:
  assumes "get_list api (trace (fetchAll_begin endpoint params w)) endpoint params = Rejected (Normal e)"
  shows "fetchAll api endpoint params w
           = (Resolved (), set_state (catch_patch e) (fetchAll_begin endpoint params w))"
  using assms by (simp add: fetchAll_rejected catch_block_Normal)

lemma fetchOne_success:
  assumes "get_item api (trace (fetchOne_begin endpoint ident w)) (item_path endpoint ident) = Resolved data"
  shows "fetchOne api endpoint ident w
           = (Resolved (), set_state [(''item'', VRes data), (''loading'', VBool False)]
                             (fetchOne_begin endpoint ident w))"
  using assms by (simp add: fetchOne_def fetchOne_resume_def Let_def)

lemma fetchOne_rejected:
  assumes "get_item api (trace (fetchOne_begin endpoint ident w)) (item_path endpoint ident) = Rejected r"
  shows "fetchOne api endpoint ident w = catch_block () r (fetchOne_begin endpoint ident w)"
  using assms by (simp add: fetchOne_def fetchOne_resume_def Let_def)

lemma fetchOne_failure:
  assumes "get_item api (trace (fetchOne_begin endpoint ident w)) (item_path endpoint ident)
             = Rejected (Normal e)"
  shows "fetchOne api endpoint ident w
           = (Resolved (), set_state (catch_patch e) (fetchOne_begin endpoint ident w))"
  using assms by (simp add: fetchOne_rejected catch_block_Normal)

text \<open>
  When the answer to its call is not a value that \<^verbatim>\<open>String\<close> cannot convert,
  \<^verbatim>\<open>fetchAll\<close> resolves after one more \<^verbatim>\<open>set\<close>, which resets \<^verbatim>\<open>loading\<close>.
\<close>

lemma fetchAll_catchable:
  assumes "catchable (get_list api (trace (fetchAll_begin endpoint params w)) endpoint params)"
  shows "\<exists>final. fetchAll api endpoint params w
                   = (Resolved (), set_state final (fetchAll_begin endpoint params w))
                 \<and> map_of final ''loading'' = Some (VBool False)"
proof (cases "get_list api (trace (fetchAll_begin endpoint params w)) endpoint params")
  case (Resolved data)
  then show ?thesis
    by (intro exI [of _ "fetched_patch data"]) (simp add: fetchAll_success fetched_patch_def)
next
  case (Rejected r)
  with assms obtain e where "r = Normal e" by (cases r) simp_all
  with Rejected show ?thesis
    by (intro exI [of _ "catch_patch e"]) (simp add: fetchAll_failure catch_patch_def)
qed

text \<open>The mutating actions, by the answer of the wrapper.\<close>

lemma create_success:
  assumes "post api (trace (create_begin endpoint payload w)) endpoint payload = Resolved d"
  shows "create api endpoint payload w
           = after_mutation api endpoint (Some d) None (create_begin endpoint payload w)"
  using assms by (simp add: create_def create_resume_def Let_def)

lemma create_rejected:
  assumes "post api (trace (create_begin endpoint payload w)) endpoint payload = Rejected r"
  shows "create api endpoint payload w = catch_block None r (create_begin endpoint payload w)"
  using assms by (simp add: create_def create_resume_def Let_def)


lemma update_rejected:
  assumes "put api (trace (update_begin endpoint ident payload w)) (item_path endpoint ident) payload
             = Rejected r"
  shows "update api endpoint ident payload w
           = catch_block None r (update_begin endpoint ident payload w)"
  using assms by (simp add: update_def update_resume_def Let_def)


lemma remove_rejected:
  assumes "delete api (trace (remove_begin endpoint ident w)) (item_path endpoint ident) = Rejected r"
  shows "remove api endpoint ident w = catch_block () r (remove_begin endpoint ident w)"
  using assms by (simp add: remove_def remove_resume_def Let_def)

text \<open>
  After a successful mutation: the refetch starts in the state in which \<^verbatim>\<open>loading\<close> has
  been reset, and decides how the action ends.
\<close>

lemma after_mutation_unfold:
  "after_mutation api endpoint result undef w =
     (case refetch api endpoint (set_state [(''loading'', VBool False)] w) of
        (Resolved u, w2) \<Rightarrow> (Resolved result, w2)
      | (Rejected r, w2) \<Rightarrow> catch_block undef r w2)"
  by (simp add: after_mutation_def Let_def)

lemma refetch_base:
  assumes "store w ''fetchAll'' = Some (VBase FetchAll)"
  shows "refetch api endpoint (set_state [(''loading'', VBool False)] w)
           = fetchAll api endpoint [] (set_state [(''loading'', VBool False)] w)"
proof -
  have "store (set_state [(''loading'', VBool False)] w) ''fetchAll'' = Some (VBase FetchAll)"
    using assms by (simp add: store_set_state)
  then show ?thesis by (simp add: refetch_def)
qed

lemma refetch_foreign:
  assumes "store w ''fetchAll'' \<noteq> Some (VBase FetchAll)"
  shows "refetch api endpoint (set_state [(''loading'', VBool False)] w)
           = call_foreign api (store w ''fetchAll'') (set_state [(''loading'', VBool False)] w)"
proof -
  have "store (set_state [(''loading'', VBool False)] w) ''fetchAll'' = store w ''fetchAll''"
    by (simp add: store_set_state)
  with assms show ?thesis
    by (simp add: refetch_def split: option.splits val.splits action.splits)
qed

lemma after_mutation_base:
  assumes "store w ''fetchAll'' = Some (VBase FetchAll)"
    and "catchable (get_list api
           (trace (fetchAll_begin endpoint [] (set_state [(''loading'', VBool False)] w))) endpoint [])"
  shows "\<exists>final. after_mutation api endpoint result undef w
           = (Resolved result,
              set_state final (fetchAll_begin endpoint [] (set_state [(''loading'', VBool False)] w)))
           \<and> map_of final ''loading'' = Some (VBool False)"
proof -
  from fetchAll_catchable [OF assms(2)]
  obtain final where
    "fetchAll api endpoint [] (set_state [(''loading'', VBool False)] w)
       = (Resolved (), set_state final (fetchAll_begin endpoint [] (set_state [(''loading'', VBool False)] w)))"
    and "map_of final ''loading'' = Some (VBool False)"
    by blast
  then show ?thesis
    by (intro exI [of _ final]) (simp add: after_mutation_unfold refetch_base [OF assms(1)])
qed

lemma after_mutation_foreign_resolved:
  assumes "store w ''fetchAll'' \<noteq> Some (VBase FetchAll)"
    and "call_foreign api (store w ''fetchAll'') (set_state [(''loading'', VBool False)] w)
           = (Resolved u, w2)"
  shows "after_mutation api endpoint result undef w = (Resolved result, w2)"
  using assms(2) by (simp add: after_mutation_unfold refetch_foreign [OF assms(1)])

lemma after_mutation_foreign_rejected:
  assumes "store w ''fetchAll'' \<noteq> Some (VBase FetchAll)"
    and "call_foreign api (store w ''fetchAll'') (set_state [(''loading'', VBool False)] w)
           = (Rejected r, w2)"
  shows "after_mutation api endpoint result undef w = catch_block undef r w2"
  using assms(2) by (simp add: after_mutation_unfold refetch_foreign [OF assms(1)])

section \<open>The factory\<close>

text \<open>
  Claim C1, as the code has it. The factory has no \<^verbatim>\<open>actions\<close> selection. Called as
  declared, with the extension absent or a function, it produces a state that holds every
  one of the five actions under its key: the store's own closure, unless the object
  returned by the extension defines that key, which then replaces it. No action is ever
  absent.
\<close>

theorem createGenericStore_has_all_actions:
  "createGenericStore endpoint ArgUndefined = Inr base_state
   \<and> (\<forall>a. base_state (action_key a) = Some (VBase a))
   \<and> spec_exposes_selection None (createGenericStore endpoint ArgUndefined)
   \<and> createGenericStore endpoint (ArgFunction extension) = Inr (base_state ++ extension)
   \<and> (\<forall>a. (base_state ++ extension) (action_key a)
           = (case extension (action_key a) of None \<Rightarrow> Some (VBase a) | Some v \<Rightarrow> Some v))"
proof -
  have keys: "base_state (action_key a) = Some (VBase a)" for a :: action
    by (cases a) (simp_all add: base_state_def)
  have "spec_exposes_selection None (createGenericStore endpoint ArgUndefined)"
    by (simp add: spec_exposes_selection_def createGenericStore_def base_state_def)
  moreover have "(base_state ++ extension) (action_key a)
           = (case extension (action_key a) of None \<Rightarrow> Some (VBase a) | Some v \<Rightarrow> Some v)"
    for a :: action
    by (simp add: map_add_def keys split: option.splits)
  ultimately show ?thesis
    by (simp add: createGenericStore_def keys)
qed

theorem createGenericStore_has_all_actions_witness:
  "createGenericStore ''/test-items'' (ArgFunction [''customState'' \<mapsto> VForeign ''initial''])
     = Inr ((base_state ++ [''customState'' \<mapsto> VForeign ''initial'']) :: (nat, string) obj)
   \<and> (base_state ++ [''customState'' \<mapsto> VForeign ''initial'']) ''create''
     = Some (VBase Create :: (nat, string) val)
   \<and> (base_state ++ [''remove'' \<mapsto> VForeign ''mine'']) ''remove''
     = Some (VForeign ''mine'' :: (nat, string) val)"
proof -
  have "(base_state ++ [''customState'' \<mapsto> VForeign ''initial'']) (action_key Create)
          = (case [''customState'' \<mapsto> VForeign ''initial''] (action_key Create) of
               None \<Rightarrow> Some (VBase Create :: (nat, string) val) | Some v \<Rightarrow> Some v)"
    using createGenericStore_has_all_actions
            [of "''/test-items''" "[''customState'' \<mapsto> VForeign ''initial'']"]
    by blast
  moreover have "(base_state ++ [''remove'' \<mapsto> VForeign ''mine'']) (action_key Remove)
          = (case [''remove'' \<mapsto> VForeign ''mine''] (action_key Remove) of
               None \<Rightarrow> Some (VBase Remove :: (nat, string) val) | Some v \<Rightarrow> Some v)"
    using createGenericStore_has_all_actions
            [of "''/test-items''" "[''remove'' \<mapsto> VForeign ''mine'']"]
    by blast
  moreover have "createGenericStore ''/test-items''
                   (ArgFunction [''customState'' \<mapsto> VForeign ''initial''])
     = Inr ((base_state ++ [''customState'' \<mapsto> VForeign ''initial'']) :: (nat, string) obj)"
    using createGenericStore_has_all_actions
            [of "''/test-items''" "[''customState'' \<mapsto> VForeign ''initial'']"]
    by blast
  ultimately show ?thesis by simp
qed

text \<open>
  Claim C1 as stated fails. With the selection \<^verbatim>\<open>['fetchAll', 'fetchOne']\<close> passed as an
  options object (the call of the specification), line 145 calls the object and the
  factory throws: no state is produced. Called as declared, without a second argument,
  the state holds \<^verbatim>\<open>create\<close>, \<^verbatim>\<open>update\<close> and \<^verbatim>\<open>remove\<close> as well.
\<close>

theorem createGenericStore_selection_counterexample:
  "createGenericStore ''/test-items''
      (ArgObject \<lparr>actions = Some [FetchAll, FetchOne], extendStore = None\<rparr>)
     = (Inl NotAFunction :: factory_error + (nat, unit) obj)
   \<and> \<not> spec_exposes_selection (Some [FetchAll, FetchOne])
         (createGenericStore ''/test-items''
            (ArgObject \<lparr>actions = Some [FetchAll, FetchOne], extendStore = None\<rparr>)
          :: factory_error + (nat, unit) obj)
   \<and> \<not> spec_exposes_selection (Some [FetchAll, FetchOne])
         (createGenericStore ''/test-items'' ArgUndefined :: factory_error + (nat, unit) obj)"
  by (simp add: createGenericStore_def spec_exposes_selection_def base_state_def)

section \<open>\<^verbatim>\<open>fetchAll\<close>\<close>

text \<open>
  Claim C2, as the code has it. When the wrapper's \<^verbatim>\<open>get\<close> resolves with a response,
  \<^verbatim>\<open>fetchAll\<close> resolves, sets \<^verbatim>\<open>items\<close> to the response's list (the empty list when the
  field is absent), sets \<^verbatim>\<open>loading\<close> to false, and sets \<^verbatim>\<open>meta\<close> with these fallbacks:
  the current page is the response's field when it is present and not zero, else 1; the
  total pages likewise; the total count is the response's field when it is present and not
  zero, else the length of the fetched list.
\<close>

theorem fetchAll_success_state:
  assumes "get_list api (trace (fetchAll_begin endpoint params w)) endpoint params = Resolved data"
  shows "fst (fetchAll api endpoint params w) = Resolved ()
       \<and> store (snd (fetchAll api endpoint params w)) ''items''
           = Some (VList (case objects data of Some os \<Rightarrow> os | None \<Rightarrow> []))
       \<and> store (snd (fetchAll api endpoint params w)) ''meta''
           = Some (VMeta
               \<lparr>currentPage = (case current_page data of Some n \<Rightarrow> if n = 0 then 1 else n | None \<Rightarrow> 1),
                totalPages = (case num_pages data of Some n \<Rightarrow> if n = 0 then 1 else n | None \<Rightarrow> 1),
                totalCount = (let fallback = (case objects data of Some os \<Rightarrow> int (length os) | None \<Rightarrow> 0)
                              in case total_count data of Some n \<Rightarrow> if n = 0 then fallback else n
                                 | None \<Rightarrow> fallback)\<rparr>)
       \<and> store (snd (fetchAll api endpoint params w)) ''loading'' = Some (VBool False)"
  using assms
  by (simp add: fetchAll_success store_set_state fetched_patch_def fetched_meta_def or_else_def
      split: option.splits)

theorem fetchAll_success_state_witness:
  "store (snd (fetchAll
       (mocked (Resolved \<lparr>objects = Some [1, 2], current_page = Some 1, num_pages = Some 2,
                           total_count = Some 20\<rparr>) (Resolved 1) (Resolved ())
          :: (nat, string, unit) environment)
       ''/test-items'' [] (fresh base_state))) ''meta''
     = Some (VMeta \<lparr>currentPage = 1, totalPages = 2, totalCount = 20\<rparr>)
   \<and> store (snd (fetchAll
       (mocked (Resolved \<lparr>objects = Some [1, 2], current_page = None, num_pages = None,
                           total_count = None\<rparr>) (Resolved 1) (Resolved ())
          :: (nat, string, unit) environment)
       ''/test-items'' [] (fresh base_state))) ''meta''
     = Some (VMeta \<lparr>currentPage = 1, totalPages = 1, totalCount = 2\<rparr>)"
  using fetchAll_success_state
          [of "mocked (Resolved \<lparr>objects = Some [1, 2], current_page = Some 1, num_pages = Some 2,
                           total_count = Some 20\<rparr>) (Resolved 1) (Resolved ())
                :: (nat, string, unit) environment"
              "''/test-items''" "[]" "fresh base_state"
              "\<lparr>objects = Some [1, 2], current_page = Some 1, num_pages = Some 2,
                           total_count = Some 20\<rparr>"]
        fetchAll_success_state
          [of "mocked (Resolved \<lparr>objects = Some [1, 2], current_page = None, num_pages = None,
                           total_count = None\<rparr>) (Resolved 1) (Resolved ())
                :: (nat, string, unit) environment"
              "''/test-items''" "[]" "fresh base_state"
              "\<lparr>objects = Some [1, 2], current_page = None, num_pages = None,
                           total_count = None\<rparr>"]
  by (simp add: mocked_def)

text \<open>
  Claim C2 as stated fails: a response whose total count is present and zero, with one
  fetched object, leaves a total count of 1, not the response's 0; and a current page of
  zero becomes 1.
\<close>

theorem fetchAll_meta_counterexample:
  "store (snd (fetchAll
       (mocked (Resolved \<lparr>objects = Some [7], current_page = Some 0, num_pages = Some 1,
                           total_count = Some 0\<rparr>) (Resolved 7) (Resolved ())
          :: (nat, string, unit) environment)
       ''/test-items'' [] (fresh base_state))) ''meta''
     = Some (VMeta \<lparr>currentPage = 1, totalPages = 1, totalCount = 1\<rparr>)
   \<and> spec_meta \<lparr>objects = Some [7::nat], current_page = Some 0, num_pages = Some 1,
                 total_count = Some 0\<rparr>
     = \<lparr>currentPage = 0, totalPages = 1, totalCount = 0\<rparr>"
  by (simp add: fetchAll_def fetchAll_resume_def Let_def world_simps mocked_def fetched_patch_def
      fetched_meta_def or_else_def spec_meta_def)

text \<open>
  Claim C10. A paging field that is present and equal to zero is treated as absent: a
  total count of zero gives the length of the fetched list (zero when there is no list),
  a current page of zero gives 1, a page count of zero gives 1.
\<close>

theorem fetchAll_zero_is_absent:
  assumes "get_list api (trace (fetchAll_begin endpoint params w)) endpoint params = Resolved data"
  shows "\<exists>m. store (snd (fetchAll api endpoint params w)) ''meta'' = Some (VMeta m)
       \<and> (total_count data = Some 0 \<longrightarrow>
            totalCount m = (case objects data of Some os \<Rightarrow> int (length os) | None \<Rightarrow> 0))
       \<and> (current_page data = Some 0 \<longrightarrow> currentPage m = 1)
       \<and> (num_pages data = Some 0 \<longrightarrow> totalPages m = 1)"
  using assms
  by (simp add: fetchAll_success store_set_state fetched_patch_def fetched_meta_def or_else_def)

theorem fetchAll_zero_is_absent_witness:
  "\<exists>m. store (snd (fetchAll
       (mocked (Resolved \<lparr>objects = Some [4, 5, 6], current_page = Some 0, num_pages = Some 0,
                           total_count = Some 0\<rparr>) (Resolved 4) (Resolved ())
          :: (nat, string, unit) environment)
       ''/test-items'' [] (fresh base_state))) ''meta'' = Some (VMeta m)
     \<and> totalCount m = 3 \<and> currentPage m = 1 \<and> totalPages m = 1"
  using fetchAll_zero_is_absent
          [of "mocked (Resolved \<lparr>objects = Some [4, 5, 6], current_page = Some 0, num_pages = Some 0,
                           total_count = Some 0\<rparr>) (Resolved 4) (Resolved ())
                :: (nat, string, unit) environment"
              "''/test-items''" "[]" "fresh base_state"
              "\<lparr>objects = Some [4, 5, 6], current_page = Some 0, num_pages = Some 0,
                           total_count = Some 0\<rparr>"]
  by (simp add: mocked_def)

text \<open>
  Claim C6. When the wrapper's \<^verbatim>\<open>get\<close> rejects, with any value, \<^verbatim>\<open>fetchAll\<close> leaves
  \<^verbatim>\<open>items\<close> and \<^verbatim>\<open>meta\<close> as they were before the call. Its \<^verbatim>\<open>set\<close> calls write
  \<^verbatim>\<open>loading\<close> and \<^verbatim>\<open>error\<close> only, so every other key keeps its value: the first
  \<^verbatim>\<open>set\<close> of line 72, and the \<^verbatim>\<open>set\<close> of the \<^verbatim>\<open>catch\<close> block, which is not even
  reached when \<^verbatim>\<open>String\<close> throws on the rejection value.
\<close>

theorem fetchAll_failure_frame:
  assumes "get_list api (trace (fetchAll_begin endpoint params w)) endpoint params = Rejected r"
  shows "store (snd (fetchAll api endpoint params w)) ''items'' = store w ''items''
       \<and> store (snd (fetchAll api endpoint params w)) ''meta'' = store w ''meta''
       \<and> (\<forall>k. k \<noteq> ''error'' \<and> k \<noteq> ''loading''
              \<longrightarrow> store (snd (fetchAll api endpoint params w)) k = store w k)
       \<and> trace (snd (fetchAll api endpoint params w))
           = trace w @ [SetState [(''loading'', VBool True), (''error'', VNull)],
                        WrapperCall (ApiGet endpoint (Some params))]
               @ (case r of
                    Normal e \<Rightarrow> [SetState [(''error'', VErr (to_Error e)), (''loading'', VBool False)]]
                  | Unconvertible x t \<Rightarrow> [])"
  using assms
  by (simp add: fetchAll_rejected catch_block_frame catch_block_trace begin_frame begin_trace
      start_patch_def)

theorem fetchAll_failure_frame_witness:
  "store (snd (fetchAll
       (mocked (Rejected (Normal (ErrorInstance (ErrorObject ''Error'' ''Failed to fetch''))))
               (Resolved 1) (Resolved ()) :: (nat, string, unit) environment)
       ''/test-items'' []
       (fresh (base_state(''items'' \<mapsto> VList [1, 2],
                          ''meta'' \<mapsto> VMeta \<lparr>currentPage = 1, totalPages = 2, totalCount = 20\<rparr>)))))
     ''items'' = Some (VList [1, 2])
   \<and> store (snd (fetchAll
       (mocked (Rejected (Normal (ErrorInstance (ErrorObject ''Error'' ''Failed to fetch''))))
               (Resolved 1) (Resolved ()) :: (nat, string, unit) environment)
       ''/test-items'' []
       (fresh (base_state(''items'' \<mapsto> VList [1, 2],
                          ''meta'' \<mapsto> VMeta \<lparr>currentPage = 1, totalPages = 2, totalCount = 20\<rparr>)))))
     ''meta'' = Some (VMeta \<lparr>currentPage = 1, totalPages = 2, totalCount = 20\<rparr>)
   \<and> store (snd (fetchAll
       (mocked (Rejected (Unconvertible () (Normal (NonError PNull))))
               (Resolved 1) (Resolved ()) :: (nat, string, unit) environment)
       ''/test-items'' []
       (fresh (base_state(''items'' \<mapsto> VList [1, 2],
                          ''meta'' \<mapsto> VMeta \<lparr>currentPage = 1, totalPages = 2, totalCount = 20\<rparr>)))))
     ''items'' = Some (VList [1, 2])"
  using fetchAll_failure_frame
          [of "mocked (Rejected (Normal (ErrorInstance (ErrorObject ''Error'' ''Failed to fetch''))))
                 (Resolved 1) (Resolved ()) :: (nat, string, unit) environment"
              "''/test-items''" "[]"
              "fresh (base_state(''items'' \<mapsto> VList [1, 2],
                          ''meta'' \<mapsto> VMeta \<lparr>currentPage = 1, totalPages = 2, totalCount = 20\<rparr>))"
              "Normal (ErrorInstance (ErrorObject ''Error'' ''Failed to fetch''))"]
        fetchAll_failure_frame
          [of "mocked (Rejected (Unconvertible () (Normal (NonError PNull))))
                 (Resolved 1) (Resolved ()) :: (nat, string, unit) environment"
              "''/test-items''" "[]"
              "fresh (base_state(''items'' \<mapsto> VList [1, 2],
                          ''meta'' \<mapsto> VMeta \<lparr>currentPage = 1, totalPages = 2, totalCount = 20\<rparr>))"
              "Unconvertible () (Normal (NonError PNull))"]
  by (simp add: mocked_def fresh_def)

section \<open>\<^verbatim>\<open>fetchOne\<close>\<close>

text \<open>
  Claim C4, as the code has it. For every id, \<^verbatim>\<open>fetchOne(id)\<close> sets \<^verbatim>\<open>loading\<close> to true
  and \<^verbatim>\<open>error\<close> to null and calls the wrapper's \<^verbatim>\<open>get\<close> with the one argument
  \<^verbatim>\<open>endpoint/id\<close>. On success it sets \<^verbatim>\<open>item\<close> to the response and \<^verbatim>\<open>loading\<close> to
  false. On failure it leaves \<^verbatim>\<open>item\<close> as it was before the call, whatever the value of
  the failure; and when that value is an error object or a value that \<^verbatim>\<open>String\<close>
  converts, it sets \<^verbatim>\<open>error\<close> and sets \<^verbatim>\<open>loading\<close> to false.
\<close>

theorem fetchOne_state:
  "store (fetchOne_begin endpoint ident w) ''loading'' = Some (VBool True)
   \<and> store (fetchOne_begin endpoint ident w) ''error'' = Some VNull
   \<and> trace (fetchOne_begin endpoint ident w)
       = trace w @ [SetState [(''loading'', VBool True), (''error'', VNull)],
                    WrapperCall (ApiGet (endpoint @ ''/'' @ id_text ident) None)]
   \<and> (get_item api (trace (fetchOne_begin endpoint ident w)) (item_path endpoint ident) = Resolved data
      \<longrightarrow> fst (fetchOne api endpoint ident w) = Resolved ()
        \<and> store (snd (fetchOne api endpoint ident w)) ''item'' = Some (VRes data)
        \<and> store (snd (fetchOne api endpoint ident w)) ''loading'' = Some (VBool False)
        \<and> store (snd (fetchOne api endpoint ident w)) ''error'' = Some VNull)
   \<and> (get_item api (trace (fetchOne_begin endpoint ident w)) (item_path endpoint ident) = Rejected r
      \<longrightarrow> store (snd (fetchOne api endpoint ident w)) ''item'' = store w ''item'')
   \<and> (get_item api (trace (fetchOne_begin endpoint ident w)) (item_path endpoint ident)
        = Rejected (Normal e)
      \<longrightarrow> fst (fetchOne api endpoint ident w) = Resolved ()
        \<and> store (snd (fetchOne api endpoint ident w)) ''item'' = store w ''item''
        \<and> store (snd (fetchOne api endpoint ident w)) ''error'' = Some (VErr (to_Error e))
        \<and> store (snd (fetchOne api endpoint ident w)) ''loading'' = Some (VBool False))"
proof (intro conjI impI)
  show "trace (fetchOne_begin endpoint ident w)
       = trace w @ [SetState [(''loading'', VBool True), (''error'', VNull)],
                    WrapperCall (ApiGet (endpoint @ ''/'' @ id_text ident) None)]"
    by (simp add: begin_trace start_patch_def item_path_def)
next
  assume "get_item api (trace (fetchOne_begin endpoint ident w)) (item_path endpoint ident) = Resolved data"
  note run = fetchOne_success [OF this]
  show "fst (fetchOne api endpoint ident w) = Resolved ()" by (simp add: run)
  show "store (snd (fetchOne api endpoint ident w)) ''item'' = Some (VRes data)"
    by (simp add: run store_set_state)
  show "store (snd (fetchOne api endpoint ident w)) ''loading'' = Some (VBool False)"
    by (simp add: run store_set_state)
  show "store (snd (fetchOne api endpoint ident w)) ''error'' = Some VNull"
    by (simp add: run store_set_state begin_error)
next
  assume "get_item api (trace (fetchOne_begin endpoint ident w)) (item_path endpoint ident) = Rejected r"
  note run = fetchOne_rejected [OF this]
  show "store (snd (fetchOne api endpoint ident w)) ''item'' = store w ''item''"
    by (simp add: run catch_block_frame begin_frame)
next
  assume "get_item api (trace (fetchOne_begin endpoint ident w)) (item_path endpoint ident)
            = Rejected (Normal e)"
  note run = fetchOne_failure [OF this]
  show "fst (fetchOne api endpoint ident w) = Resolved ()" by (simp add: run)
  show "store (snd (fetchOne api endpoint ident w)) ''item'' = store w ''item''"
    by (simp add: run caught_frame begin_frame)
  show "store (snd (fetchOne api endpoint ident w)) ''error'' = Some (VErr (to_Error e))"
    by (simp add: run caught)
  show "store (snd (fetchOne api endpoint ident w)) ''loading'' = Some (VBool False)"
    by (simp add: run caught)
qed (simp_all add: begin_loading begin_error)

theorem fetchOne_state_witness:
  "trace (fetchOne_begin ''/test-items'' (IdNum 1) (fresh base_state :: (nat, string, unit) world))
     = [SetState [(''loading'', VBool True), (''error'', VNull)],
        WrapperCall (ApiGet ''/test-items/1'' None)]
   \<and> store (snd (fetchOne (mocked (Resolved \<lparr>objects = None, current_page = None, num_pages = None,
                                           total_count = None\<rparr>) (Resolved 5) (Resolved ())
                          :: (nat, string, unit) environment)
                 ''/test-items'' (IdNum 1) (fresh base_state))) ''item'' = Some (VRes 5)
   \<and> store (snd (fetchOne (mocked (Resolved \<lparr>objects = None, current_page = None, num_pages = None,
                                           total_count = None\<rparr>)
                                   (Rejected (Normal (ErrorInstance (ErrorObject ''Error'' ''Fetch single failed''))))
                                   (Resolved ())
                          :: (nat, string, unit) environment)
                 ''/test-items'' (IdNum 1) (fresh (base_state(''item'' \<mapsto> VRes 4))))) ''item''
       = Some (VRes 4)
   \<and> store (snd (fetchOne (mocked (Resolved \<lparr>objects = None, current_page = None, num_pages = None,
                                           total_count = None\<rparr>)
                                   (Rejected (Normal (ErrorInstance (ErrorObject ''Error'' ''Fetch single failed''))))
                                   (Resolved ())
                          :: (nat, string, unit) environment)
                 ''/test-items'' (IdNum 1) (fresh (base_state(''item'' \<mapsto> VRes 4))))) ''error''
       = Some (VErr (ErrorObject ''Error'' ''Fetch single failed''))
   \<and> store (snd (fetchOne (mocked (Resolved \<lparr>objects = None, current_page = None, num_pages = None,
                                           total_count = None\<rparr>)
                                   (Rejected (Normal (NonError (PObj ()))))
                                   (Resolved ())
                          :: (nat, string, unit) environment)
                 ''/test-items'' (IdNum 1) (fresh (base_state(''item'' \<mapsto> VRes 4))))) ''error''
       = Some (VErr (ErrorObject ''Error'' ''[object Object]''))"
  using fetchOne_state
          [of "''/test-items''" "IdNum 1" "fresh base_state"
              "mocked (Resolved \<lparr>objects = None, current_page = None, num_pages = None,
                                 total_count = None\<rparr>) (Resolved 5) (Resolved ())
                 :: (nat, string, unit) environment" 5]
        fetchOne_state
          [of "''/test-items''" "IdNum 1" "fresh (base_state(''item'' \<mapsto> VRes 4))"
              "mocked (Resolved \<lparr>objects = None, current_page = None, num_pages = None,
                                 total_count = None\<rparr>)
                      (Rejected (Normal (ErrorInstance (ErrorObject ''Error'' ''Fetch single failed''))))
                      (Resolved ())
                 :: (nat, string, unit) environment" _
              "Normal (ErrorInstance (ErrorObject ''Error'' ''Fetch single failed''))"
              "ErrorInstance (ErrorObject ''Error'' ''Fetch single failed'')"]
        fetchOne_state
          [of "''/test-items''" "IdNum 1" "fresh (base_state(''item'' \<mapsto> VRes 4))"
              "mocked (Resolved \<lparr>objects = None, current_page = None, num_pages = None,
                                 total_count = None\<rparr>)
                      (Rejected (Normal (NonError (PObj ()))))
                      (Resolved ())
                 :: (nat, string, unit) environment" _
              "Normal (NonError (PObj ()))"
              "NonError (PObj ())"]
  by (simp add: mocked_def fresh_def base_state_def dec_string_def digits.simps)

text \<open>
  Claim C4 as stated fails in its last part: with \<^verbatim>\<open>item\<close> holding a resource before
  the call, a failing \<^verbatim>\<open>fetchOne\<close> leaves that resource in \<^verbatim>\<open>item\<close>, not null.
\<close>

theorem fetchOne_failure_item_counterexample:
  "store (snd (fetchOne (mocked (Resolved \<lparr>objects = None, current_page = None, num_pages = None,
                                           total_count = None\<rparr>)
                                   (Rejected (Normal (ErrorInstance (ErrorObject ''Error'' ''Fetch single failed''))))
                                   (Resolved ())
                          :: (nat, string, unit) environment)
                 ''/test-items'' (IdNum 2) (fresh (base_state(''item'' \<mapsto> VRes 1))))) ''item''
     = Some (VRes 1)
   \<and> store (snd (fetchOne (mocked (Resolved \<lparr>objects = None, current_page = None, num_pages = None,
                                           total_count = None\<rparr>)
                                   (Rejected (Normal (ErrorInstance (ErrorObject ''Error'' ''Fetch single failed''))))
                                   (Resolved ())
                          :: (nat, string, unit) environment)
                 ''/test-items'' (IdNum 2) (fresh (base_state(''item'' \<mapsto> VRes 1))))) ''item''
     \<noteq> Some VNull"
  by (simp add: fetchOne_def fetchOne_resume_def Let_def catch_block_def world_simps mocked_def
      fresh_def catch_patch_def start_patch_def fetchOne_begin_def)

section \<open>\<^verbatim>\<open>create\<close>\<close>

text \<open>
  Claim C3, as the code has it. For every payload, \<^verbatim>\<open>create(payload)\<close> calls the wrapper's
  \<^verbatim>\<open>post\<close> once, with the endpoint and the payload. If \<^verbatim>\<open>post\<close> resolves, \<^verbatim>\<open>create\<close>
  sets \<^verbatim>\<open>loading\<close> to false and then calls, once and without arguments, the function
  it finds under the key \<^verbatim>\<open>fetchAll\<close> of the state.
  \<^item> Where that is the factory's own \<^verbatim>\<open>fetchAll\<close>, this is one \<^verbatim>\<open>get\<close> on the endpoint
    with empty parameters, and \<^verbatim>\<open>create\<close> returns the resource \<^verbatim>\<open>post\<close> resolved with
    (the \<^verbatim>\<open>get\<close> not failing with a value that \<^verbatim>\<open>String\<close> cannot convert).
  \<^item> Where the extension has put another function there, \<^verbatim>\<open>create\<close> returns that
    resource when the call resolves; when it rejects, the rejection is caught like a
    failure of \<^verbatim>\<open>post\<close>: \<^verbatim>\<open>error\<close> is set, \<^verbatim>\<open>loading\<close> is set to false and
    \<^verbatim>\<open>create\<close> returns \<^verbatim>\<open>undefined\<close>.

  If \<^verbatim>\<open>post\<close> rejects with an error object or a value that \<^verbatim>\<open>String\<close> converts,
  \<^verbatim>\<open>create\<close> sets \<^verbatim>\<open>error\<close>, sets \<^verbatim>\<open>loading\<close> to false, makes no \<^verbatim>\<open>get\<close> call and
  returns \<^verbatim>\<open>undefined\<close>.
\<close>

theorem create_posts_once_then_refetches:
  "(post api (trace (create_begin endpoint payload w)) endpoint payload = Resolved d
      \<and> store w ''fetchAll'' = Some (VBase FetchAll)
      \<and> catchable (get_list api
           (trace (fetchAll_begin endpoint []
              (set_state [(''loading'', VBool False)] (create_begin endpoint payload w))))
           endpoint [])
    \<longrightarrow> fst (create api endpoint payload w) = Resolved (Some d)
      \<and> (\<exists>final. trace (snd (create api endpoint payload w)) =
            trace w @ [SetState [(''loading'', VBool True), (''error'', VNull)],
                       WrapperCall (ApiPost endpoint payload),
                       SetState [(''loading'', VBool False)],
                       SetState [(''loading'', VBool True), (''error'', VNull)],
                       WrapperCall (ApiGet endpoint (Some [])),
                       SetState final])
      \<and> calls (drop (length (trace w)) (trace (snd (create api endpoint payload w))))
          = [ApiPost endpoint payload, ApiGet endpoint (Some [])])
 \<and> (post api (trace (create_begin endpoint payload w)) endpoint payload = Resolved d
      \<and> store w ''fetchAll'' \<noteq> Some (VBase FetchAll)
    \<longrightarrow> trace (set_state [(''loading'', VBool False)] (create_begin endpoint payload w))
          = trace w @ [SetState [(''loading'', VBool True), (''error'', VNull)],
                       WrapperCall (ApiPost endpoint payload),
                       SetState [(''loading'', VBool False)]]
      \<and> (\<forall>u w2. call_foreign api (store w ''fetchAll'')
                    (set_state [(''loading'', VBool False)] (create_begin endpoint payload w))
                  = (Resolved u, w2)
            \<longrightarrow> create api endpoint payload w = (Resolved (Some d), w2))
      \<and> (\<forall>e2 w2. call_foreign api (store w ''fetchAll'')
                    (set_state [(''loading'', VBool False)] (create_begin endpoint payload w))
                  = (Rejected (Normal e2), w2)
            \<longrightarrow> create api endpoint payload w
                  = (Resolved None,
                     set_state [(''error'', VErr (to_Error e2)), (''loading'', VBool False)] w2)))
 \<and> (post api (trace (create_begin endpoint payload w)) endpoint payload = Rejected (Normal e)
    \<longrightarrow> fst (create api endpoint payload w) = Resolved None
      \<and> trace (snd (create api endpoint payload w)) =
            trace w @ [SetState [(''loading'', VBool True), (''error'', VNull)],
                       WrapperCall (ApiPost endpoint payload),
                       SetState [(''error'', VErr (to_Error e)), (''loading'', VBool False)]]
      \<and> calls (drop (length (trace w)) (trace (snd (create api endpoint payload w))))
          = [ApiPost endpoint payload]
      \<and> store (snd (create api endpoint payload w)) ''error'' = Some (VErr (to_Error e))
      \<and> store (snd (create api endpoint payload w)) ''loading'' = Some (VBool False))"
proof (intro conjI impI allI)
  assume a: "post api (trace (create_begin endpoint payload w)) endpoint payload = Resolved d
      \<and> store w ''fetchAll'' = Some (VBase FetchAll)
      \<and> catchable (get_list api
           (trace (fetchAll_begin endpoint []
              (set_state [(''loading'', VBool False)] (create_begin endpoint payload w))))
           endpoint [])"
  then have slot: "store (create_begin endpoint payload w) ''fetchAll'' = Some (VBase FetchAll)"
    by (simp add: begin_keeps_fetchAll)
  from a have run: "create api endpoint payload w
           = after_mutation api endpoint (Some d) None (create_begin endpoint payload w)"
    by (simp add: create_success)
  from a after_mutation_base [OF slot, of api endpoint "Some d" None]
  obtain final where f: "create api endpoint payload w
           = (Resolved (Some d),
              set_state final (fetchAll_begin endpoint []
                 (set_state [(''loading'', VBool False)] (create_begin endpoint payload w))))"
    by (auto simp: run)
  show "fst (create api endpoint payload w) = Resolved (Some d)"
    by (simp add: f)
  have t: "trace (snd (create api endpoint payload w)) =
            trace w @ [SetState [(''loading'', VBool True), (''error'', VNull)],
                       WrapperCall (ApiPost endpoint payload),
                       SetState [(''loading'', VBool False)],
                       SetState [(''loading'', VBool True), (''error'', VNull)],
                       WrapperCall (ApiGet endpoint (Some [])),
                       SetState final]"
    by (simp add: f begin_trace trace_set_state start_patch_def)
  then show "\<exists>final. trace (snd (create api endpoint payload w)) =
            trace w @ [SetState [(''loading'', VBool True), (''error'', VNull)],
                       WrapperCall (ApiPost endpoint payload),
                       SetState [(''loading'', VBool False)],
                       SetState [(''loading'', VBool True), (''error'', VNull)],
                       WrapperCall (ApiGet endpoint (Some [])),
                       SetState final]"
    by blast
  show "calls (drop (length (trace w)) (trace (snd (create api endpoint payload w))))
          = [ApiPost endpoint payload, ApiGet endpoint (Some [])]"
    by (simp add: t)
next
  assume a: "post api (trace (create_begin endpoint payload w)) endpoint payload = Resolved d
      \<and> store w ''fetchAll'' \<noteq> Some (VBase FetchAll)"
  show "trace (set_state [(''loading'', VBool False)] (create_begin endpoint payload w))
          = trace w @ [SetState [(''loading'', VBool True), (''error'', VNull)],
                       WrapperCall (ApiPost endpoint payload),
                       SetState [(''loading'', VBool False)]]"
    by (simp add: begin_trace trace_set_state start_patch_def)
next
  fix u w2
  assume a: "post api (trace (create_begin endpoint payload w)) endpoint payload = Resolved d
      \<and> store w ''fetchAll'' \<noteq> Some (VBase FetchAll)"
    and b: "call_foreign api (store w ''fetchAll'')
                    (set_state [(''loading'', VBool False)] (create_begin endpoint payload w))
                  = (Resolved u, w2)"
  from a have slot: "store (create_begin endpoint payload w) ''fetchAll'' \<noteq> Some (VBase FetchAll)"
    by (simp add: begin_keeps_fetchAll)
  from b have "call_foreign api (store (create_begin endpoint payload w) ''fetchAll'')
                    (set_state [(''loading'', VBool False)] (create_begin endpoint payload w))
                  = (Resolved u, w2)"
    by (simp add: begin_keeps_fetchAll)
  from after_mutation_foreign_resolved [OF slot this] a
  show "create api endpoint payload w = (Resolved (Some d), w2)"
    by (simp add: create_success)
next
  fix e2 w2
  assume a: "post api (trace (create_begin endpoint payload w)) endpoint payload = Resolved d
      \<and> store w ''fetchAll'' \<noteq> Some (VBase FetchAll)"
    and b: "call_foreign api (store w ''fetchAll'')
                    (set_state [(''loading'', VBool False)] (create_begin endpoint payload w))
                  = (Rejected (Normal e2), w2)"
  from a have slot: "store (create_begin endpoint payload w) ''fetchAll'' \<noteq> Some (VBase FetchAll)"
    by (simp add: begin_keeps_fetchAll)
  from b have "call_foreign api (store (create_begin endpoint payload w) ''fetchAll'')
                    (set_state [(''loading'', VBool False)] (create_begin endpoint payload w))
                  = (Rejected (Normal e2), w2)"
    by (simp add: begin_keeps_fetchAll)
  from after_mutation_foreign_rejected [OF slot this] a
  show "create api endpoint payload w
          = (Resolved None, set_state [(''error'', VErr (to_Error e2)), (''loading'', VBool False)] w2)"
    by (simp add: create_success catch_block_Normal catch_patch_def)
next
  assume "post api (trace (create_begin endpoint payload w)) endpoint payload = Rejected (Normal e)"
  from create_rejected [OF this]
  have run: "create api endpoint payload w
               = (Resolved None, set_state (catch_patch e) (create_begin endpoint payload w))"
    by (simp add: catch_block_Normal)
  show "fst (create api endpoint payload w) = Resolved None" by (simp add: run)
  show t: "trace (snd (create api endpoint payload w)) =
            trace w @ [SetState [(''loading'', VBool True), (''error'', VNull)],
                       WrapperCall (ApiPost endpoint payload),
                       SetState [(''error'', VErr (to_Error e)), (''loading'', VBool False)]]"
    by (simp add: run caught begin_trace start_patch_def)
  show "calls (drop (length (trace w)) (trace (snd (create api endpoint payload w))))
          = [ApiPost endpoint payload]"
    by (simp add: t)
  show "store (snd (create api endpoint payload w)) ''error'' = Some (VErr (to_Error e))"
    by (simp add: run caught)
  show "store (snd (create api endpoint payload w)) ''loading'' = Some (VBool False)"
    by (simp add: run caught)
qed

theorem create_posts_once_then_refetches_witness:
  "fst (create (mocked (Resolved \<lparr>objects = Some [3], current_page = None, num_pages = None,
                                  total_count = None\<rparr>) (Resolved 3) (Resolved ())
                 :: (nat, string, unit) environment)
          ''/test-items'' ''New Item'' (fresh base_state)) = Resolved (Some 3)
   \<and> calls (trace (snd (create (mocked (Resolved \<lparr>objects = Some [3], current_page = None,
                                   num_pages = None, total_count = None\<rparr>) (Resolved 3) (Resolved ())
                 :: (nat, string, unit) environment)
          ''/test-items'' ''New Item'' (fresh base_state))))
       = [ApiPost ''/test-items'' ''New Item'', ApiGet ''/test-items'' (Some [])]
   \<and> fst (create (mocked (Resolved \<lparr>objects = Some [3], current_page = None, num_pages = None,
                                  total_count = None\<rparr>) (Resolved 3) (Resolved ())
                 :: (nat, string, unit) environment)
          ''/test-items'' ''New Item'' (fresh (base_state(''fetchAll'' \<mapsto> VForeign ()))))
       = Resolved None
   \<and> fst (create ((mocked (Resolved \<lparr>objects = Some [3], current_page = None, num_pages = None,
                                  total_count = None\<rparr>) (Resolved 3) (Resolved ())
                 :: (nat, string, unit) environment)
                \<lparr>call_foreign := \<lambda>v w. (Resolved (), w)\<rparr>)
          ''/test-items'' ''New Item'' (fresh (base_state(''fetchAll'' \<mapsto> VForeign ()))))
       = Resolved (Some 3)
   \<and> fst (create (mocked (Resolved \<lparr>objects = Some [3], current_page = None, num_pages = None,
                                  total_count = None\<rparr>)
                          (Rejected (Normal (ErrorInstance (ErrorObject ''Error'' ''Create failed''))))
                          (Resolved ())
                 :: (nat, string, unit) environment)
          ''/test-items'' ''New Item'' (fresh base_state)) = Resolved None
   \<and> calls (trace (snd (create (mocked (Resolved \<lparr>objects = Some [3], current_page = None,
                                   num_pages = None, total_count = None\<rparr>)
                          (Rejected (Normal (ErrorInstance (ErrorObject ''Error'' ''Create failed''))))
                          (Resolved ())
                 :: (nat, string, unit) environment)
          ''/test-items'' ''New Item'' (fresh base_state))))
       = [ApiPost ''/test-items'' ''New Item'']"
proof -
  let ?ok = "mocked (Resolved \<lparr>objects = Some [3], current_page = None, num_pages = None,
                                 total_count = None\<rparr>) (Resolved 3) (Resolved ())
               :: (nat, string, unit) environment"
  let ?ko = "mocked (Resolved \<lparr>objects = Some [3], current_page = None, num_pages = None,
                                 total_count = None\<rparr>)
                    (Rejected (Normal (ErrorInstance (ErrorObject ''Error'' ''Create failed''))))
                    (Resolved ())
               :: (nat, string, unit) environment"
  let ?w = "fresh base_state :: (nat, string, unit) world"
  let ?x = "fresh (base_state(''fetchAll'' \<mapsto> VForeign ())) :: (nat, string, unit) world"
  have ok: "post ?ok (trace (create_begin ''/test-items'' ''New Item'' ?w)) ''/test-items'' ''New Item''
              = Resolved 3
            \<and> store ?w ''fetchAll'' = Some (VBase FetchAll)
            \<and> catchable (get_list ?ok
                 (trace (fetchAll_begin ''/test-items'' []
                    (set_state [(''loading'', VBool False)]
                       (create_begin ''/test-items'' ''New Item'' ?w))))
                 ''/test-items'' [])"
    by (simp add: mocked_def fresh_def base_state_def)
  have foreign: "post ?ok (trace (create_begin ''/test-items'' ''New Item'' ?x)) ''/test-items'' ''New Item''
              = Resolved 3
            \<and> store ?x ''fetchAll'' \<noteq> Some (VBase FetchAll)"
    by (simp add: mocked_def fresh_def)
  have answer: "call_foreign ?ok (store ?x ''fetchAll'')
                  (set_state [(''loading'', VBool False)] (create_begin ''/test-items'' ''New Item'' ?x))
                = (Rejected (Normal (NonError PUndefined)),
                   set_state [(''loading'', VBool False)] (create_begin ''/test-items'' ''New Item'' ?x))"
    by (simp add: mocked_def)
  let ?quiet = "?ok\<lparr>call_foreign := \<lambda>v w. (Resolved (), w)\<rparr>"
  have quiet: "post ?quiet (trace (create_begin ''/test-items'' ''New Item'' ?x)) ''/test-items'' ''New Item''
              = Resolved 3
            \<and> store ?x ''fetchAll'' \<noteq> Some (VBase FetchAll)"
    by (simp add: mocked_def fresh_def)
  have silence: "call_foreign ?quiet (store ?x ''fetchAll'')
                  (set_state [(''loading'', VBool False)] (create_begin ''/test-items'' ''New Item'' ?x))
                = (Resolved (),
                   set_state [(''loading'', VBool False)] (create_begin ''/test-items'' ''New Item'' ?x))"
    by simp
  have ko: "post ?ko (trace (create_begin ''/test-items'' ''New Item'' ?w)) ''/test-items'' ''New Item''
              = Rejected (Normal (ErrorInstance (ErrorObject ''Error'' ''Create failed'')))"
    by (simp add: mocked_def)
  note own = create_posts_once_then_refetches
          [where api = ?ok and endpoint = "''/test-items''" and payload = "''New Item''"
             and w = ?w and d = 3]
  note other = create_posts_once_then_refetches
          [where api = ?ok and endpoint = "''/test-items''" and payload = "''New Item''"
             and w = ?x and d = 3]
  note resolved = create_posts_once_then_refetches
          [where api = ?quiet and endpoint = "''/test-items''" and payload = "''New Item''"
             and w = ?x and d = 3]
  note failure = create_posts_once_then_refetches
          [where api = ?ko and endpoint = "''/test-items''" and payload = "''New Item''"
             and w = ?w and e = "ErrorInstance (ErrorObject ''Error'' ''Create failed'')"]
  have "fst (create ?ok ''/test-items'' ''New Item'' ?w) = Resolved (Some 3)
        \<and> calls (drop (length (trace ?w)) (trace (snd (create ?ok ''/test-items'' ''New Item'' ?w))))
            = [ApiPost ''/test-items'' ''New Item'', ApiGet ''/test-items'' (Some [])]"
    using own ok by blast
  moreover have "create ?ok ''/test-items'' ''New Item'' ?x
        = (Resolved None,
           set_state [(''error'', VErr (to_Error (NonError PUndefined :: unit thrown))),
                      (''loading'', VBool False)]
             (set_state [(''loading'', VBool False)] (create_begin ''/test-items'' ''New Item'' ?x)))"
    using other foreign answer by blast
  moreover have "create ?quiet ''/test-items'' ''New Item'' ?x
        = (Resolved (Some 3),
           set_state [(''loading'', VBool False)] (create_begin ''/test-items'' ''New Item'' ?x))"
    using resolved quiet silence by blast
  moreover have "fst (create ?ko ''/test-items'' ''New Item'' ?w) = Resolved None
        \<and> calls (drop (length (trace ?w)) (trace (snd (create ?ko ''/test-items'' ''New Item'' ?w))))
            = [ApiPost ''/test-items'' ''New Item'']"
    using failure ko by blast
  ultimately show ?thesis by (simp add: fresh_def)
qed

text \<open>
  Claim C3 as stated fails on a store the factory builds from an extension that defines
  \<^verbatim>\<open>fetchAll\<close>: when that function rejects, \<^verbatim>\<open>create\<close> returns \<^verbatim>\<open>undefined\<close> although
  \<^verbatim>\<open>post\<close> has succeeded, and stores the rejection in \<^verbatim>\<open>error\<close>.
\<close>

theorem create_extension_refetch_counterexample:
  "createGenericStore ''/test-items'' (ArgFunction [''fetchAll'' \<mapsto> VForeign ()])
     = (Inr (base_state ++ [''fetchAll'' \<mapsto> VForeign ()]) :: factory_error + (nat, unit) obj)
   \<and> fst (create
       ((mocked (Resolved \<lparr>objects = Some [3], current_page = None, num_pages = None,
                           total_count = None\<rparr>) (Resolved 3) (Resolved ())
           :: (nat, string, unit) environment)
        \<lparr>call_foreign :=
           \<lambda>v w. (Rejected (Normal (ErrorInstance (ErrorObject ''Error'' ''refetch failed''))), w)\<rparr>)
       ''/test-items'' ''New Item'' (fresh (base_state ++ [''fetchAll'' \<mapsto> VForeign ()])))
     = Resolved None
   \<and> store (snd (create
       ((mocked (Resolved \<lparr>objects = Some [3], current_page = None, num_pages = None,
                           total_count = None\<rparr>) (Resolved 3) (Resolved ())
           :: (nat, string, unit) environment)
        \<lparr>call_foreign :=
           \<lambda>v w. (Rejected (Normal (ErrorInstance (ErrorObject ''Error'' ''refetch failed''))), w)\<rparr>)
       ''/test-items'' ''New Item'' (fresh (base_state ++ [''fetchAll'' \<mapsto> VForeign ()]))))
       ''error''
     = Some (VErr (ErrorObject ''Error'' ''refetch failed''))
   \<and> trace (snd (create
       ((mocked (Resolved \<lparr>objects = Some [3], current_page = None, num_pages = None,
                           total_count = None\<rparr>) (Resolved 3) (Resolved ())
           :: (nat, string, unit) environment)
        \<lparr>call_foreign :=
           \<lambda>v w. (Rejected (Normal (ErrorInstance (ErrorObject ''Error'' ''refetch failed''))), w)\<rparr>)
       ''/test-items'' ''New Item'' (fresh (base_state ++ [''fetchAll'' \<mapsto> VForeign ()]))))
     = [SetState [(''loading'', VBool True), (''error'', VNull)],
        WrapperCall (ApiPost ''/test-items'' ''New Item''),
        SetState [(''loading'', VBool False)],
        SetState [(''error'', VErr (ErrorObject ''Error'' ''refetch failed'')),
                  (''loading'', VBool False)]]"
  by (simp add: createGenericStore_def create_def create_begin_def create_resume_def
      after_mutation_def refetch_def catch_block_def catch_patch_def start_patch_def
      set_state_def issue_def mocked_def fresh_def Let_def map_add_def)

section \<open>Failures and the \<^verbatim>\<open>catch\<close> blocks\<close>

text \<open>
  When the wrapper's call rejects with an error object or a value that \<^verbatim>\<open>String\<close>
  converts, every action resolves, stores the error object, or a new one whose message is
  the value's text, in \<^verbatim>\<open>error\<close>, and sets \<^verbatim>\<open>loading\<close> to false.
\<close>

lemma normal_failures_are_caught:
  "(get_list api (trace (fetchAll_begin endpoint params w)) endpoint params = Rejected (Normal e)
      \<longrightarrow> fst (fetchAll api endpoint params w) = Resolved ()
        \<and> store (snd (fetchAll api endpoint params w)) ''error'' = Some (VErr (to_Error e))
        \<and> store (snd (fetchAll api endpoint params w)) ''loading'' = Some (VBool False))
   \<and> (get_item api (trace (fetchOne_begin endpoint ident w)) (item_path endpoint ident)
        = Rejected (Normal e)
      \<longrightarrow> fst (fetchOne api endpoint ident w) = Resolved ()
        \<and> store (snd (fetchOne api endpoint ident w)) ''error'' = Some (VErr (to_Error e))
        \<and> store (snd (fetchOne api endpoint ident w)) ''loading'' = Some (VBool False))
   \<and> (post api (trace (create_begin endpoint payload w)) endpoint payload = Rejected (Normal e)
      \<longrightarrow> fst (create api endpoint payload w) = Resolved None
        \<and> store (snd (create api endpoint payload w)) ''error'' = Some (VErr (to_Error e))
        \<and> store (snd (create api endpoint payload w)) ''loading'' = Some (VBool False))
   \<and> (put api (trace (update_begin endpoint ident payload w)) (item_path endpoint ident) payload
        = Rejected (Normal e)
      \<longrightarrow> fst (update api endpoint ident payload w) = Resolved None
        \<and> store (snd (update api endpoint ident payload w)) ''error'' = Some (VErr (to_Error e))
        \<and> store (snd (update api endpoint ident payload w)) ''loading'' = Some (VBool False))
   \<and> (delete api (trace (remove_begin endpoint ident w)) (item_path endpoint ident)
        = Rejected (Normal e)
      \<longrightarrow> fst (remove api endpoint ident w) = Resolved ()
        \<and> store (snd (remove api endpoint ident w)) ''error'' = Some (VErr (to_Error e))
        \<and> store (snd (remove api endpoint ident w)) ''loading'' = Some (VBool False))"
  by (simp add: fetchAll_failure fetchOne_failure create_rejected update_rejected remove_rejected
      catch_block_Normal caught)

text \<open>The error object that is stored, for each kind of value.\<close>

lemma stored_error_objects:
  "to_Error (ErrorInstance (ErrorObject ''TypeError'' ''x is not iterable'') :: unit thrown)
     = ErrorObject ''TypeError'' ''x is not iterable''"
  "to_Error (NonError (PStr ''Delete failed'') :: unit thrown) = ErrorObject ''Error'' ''Delete failed''"
  "to_Error (NonError PUndefined :: unit thrown) = ErrorObject ''Error'' ''undefined''"
  "to_Error (NonError PNull :: unit thrown) = ErrorObject ''Error'' ''null''"
  "to_Error (NonError (PBool False) :: unit thrown) = ErrorObject ''Error'' ''false''"
  "to_Error (NonError (PObj ()) :: unit thrown) = ErrorObject ''Error'' ''[object Object]''"
  "to_Error (NonError (PPrinted () ''404'') :: unit thrown) = ErrorObject ''Error'' ''404''"
  by simp_all

text \<open>
  When the wrapper's call rejects with a value on which \<^verbatim>\<open>String\<close> throws, the
  \<^verbatim>\<open>catch\<close> block of every action throws in its turn: the action's promise rejects with
  what the conversion threw, and the store is left as the first \<^verbatim>\<open>set\<close> of the action
  made it, with \<^verbatim>\<open>loading\<close> true and \<^verbatim>\<open>error\<close> null.
\<close>

lemma unconvertible_failures_escape:
  "(get_list api (trace (fetchAll_begin endpoint params w)) endpoint params
        = Rejected (Unconvertible x t)
      \<longrightarrow> fetchAll api endpoint params w = (Rejected t, fetchAll_begin endpoint params w))
   \<and> (get_item api (trace (fetchOne_begin endpoint ident w)) (item_path endpoint ident)
        = Rejected (Unconvertible x t)
      \<longrightarrow> fetchOne api endpoint ident w = (Rejected t, fetchOne_begin endpoint ident w))
   \<and> (post api (trace (create_begin endpoint payload w)) endpoint payload
        = Rejected (Unconvertible x t)
      \<longrightarrow> create api endpoint payload w = (Rejected t, create_begin endpoint payload w))
   \<and> (put api (trace (update_begin endpoint ident payload w)) (item_path endpoint ident) payload
        = Rejected (Unconvertible x t)
      \<longrightarrow> update api endpoint ident payload w = (Rejected t, update_begin endpoint ident payload w))
   \<and> (delete api (trace (remove_begin endpoint ident w)) (item_path endpoint ident)
        = Rejected (Unconvertible x t)
      \<longrightarrow> remove api endpoint ident w = (Rejected t, remove_begin endpoint ident w))"
  by (simp add: fetchAll_rejected fetchOne_rejected create_rejected update_rejected remove_rejected
      catch_block_Unconvertible)

text \<open>
  Claim C5 does not hold of the code. The wrapper rejects with a value that is not an error
  object and that \<^verbatim>\<open>String\<close> cannot convert: an object without prototype, or the parsed
  error body \<^verbatim>\<open>{"toString": 1}\<close> of a server response. In the \<^verbatim>\<open>catch\<close> block,
  \<^verbatim>\<open>String(error)\<close> throws a \<^verbatim>\<open>TypeError\<close> before \<^verbatim>\<open>set\<close> is called. So the promise of
  each of the five actions rejects with that \<^verbatim>\<open>TypeError\<close>, \<^verbatim>\<open>error\<close> is still null and
  \<^verbatim>\<open>loading\<close> is still true.
\<close>

theorem unconvertible_failure_leaves_loading:
  "fetchAll
      (mocked (Rejected (Unconvertible () (Normal (ErrorInstance
                 (ErrorObject ''TypeError'' ''Cannot convert object to primitive value'')))))
              (Resolved 1) (Resolved ()) :: (nat, string, unit) environment)
      ''/test-items'' [] (fresh base_state)
     = (Rejected (Normal (ErrorInstance
                 (ErrorObject ''TypeError'' ''Cannot convert object to primitive value''))),
        \<lparr>store = base_state(''loading'' \<mapsto> VBool True, ''error'' \<mapsto> VNull),
         trace = [SetState [(''loading'', VBool True), (''error'', VNull)],
                  WrapperCall (ApiGet ''/test-items'' (Some []))]\<rparr>)
   \<and> fetchOne
      (mocked (Resolved \<lparr>objects = None, current_page = None, num_pages = None, total_count = None\<rparr>)
              (Rejected (Unconvertible () (Normal (ErrorInstance
                 (ErrorObject ''TypeError'' ''Cannot convert object to primitive value'')))))
              (Resolved ()) :: (nat, string, unit) environment)
      ''/test-items'' (IdNum 1) (fresh base_state)
     = (Rejected (Normal (ErrorInstance
                 (ErrorObject ''TypeError'' ''Cannot convert object to primitive value''))),
        \<lparr>store = base_state(''loading'' \<mapsto> VBool True, ''error'' \<mapsto> VNull),
         trace = [SetState [(''loading'', VBool True), (''error'', VNull)],
                  WrapperCall (ApiGet ''/test-items/1'' None)]\<rparr>)
   \<and> create
      (mocked (Resolved \<lparr>objects = None, current_page = None, num_pages = None, total_count = None\<rparr>)
              (Rejected (Unconvertible () (Normal (ErrorInstance
                 (ErrorObject ''TypeError'' ''Cannot convert object to primitive value'')))))
              (Resolved ()) :: (nat, string, unit) environment)
      ''/test-items'' ''New Item'' (fresh base_state)
     = (Rejected (Normal (ErrorInstance
                 (ErrorObject ''TypeError'' ''Cannot convert object to primitive value''))),
        \<lparr>store = base_state(''loading'' \<mapsto> VBool True, ''error'' \<mapsto> VNull),
         trace = [SetState [(''loading'', VBool True), (''error'', VNull)],
                  WrapperCall (ApiPost ''/test-items'' ''New Item'')]\<rparr>)
   \<and> update
      (mocked (Resolved \<lparr>objects = None, current_page = None, num_pages = None, total_count = None\<rparr>)
              (Rejected (Unconvertible () (Normal (ErrorInstance
                 (ErrorObject ''TypeError'' ''Cannot convert object to primitive value'')))))
              (Resolved ()) :: (nat, string, unit) environment)
      ''/test-items'' (IdNum 1) ''Updated Item'' (fresh base_state)
     = (Rejected (Normal (ErrorInstance
                 (ErrorObject ''TypeError'' ''Cannot convert object to primitive value''))),
        \<lparr>store = base_state(''loading'' \<mapsto> VBool True, ''error'' \<mapsto> VNull),
         trace = [SetState [(''loading'', VBool True), (''error'', VNull)],
                  WrapperCall (ApiPut ''/test-items/1'' ''Updated Item'')]\<rparr>)
   \<and> remove
      (mocked (Resolved \<lparr>objects = None, current_page = None, num_pages = None, total_count = None\<rparr>)
              (Resolved 1)
              (Rejected (Unconvertible () (Normal (ErrorInstance
                 (ErrorObject ''TypeError'' ''Cannot convert object to primitive value'')))))
        :: (nat, string, unit) environment)
      ''/test-items'' (IdNum 1) (fresh base_state)
     = (Rejected (Normal (ErrorInstance
                 (ErrorObject ''TypeError'' ''Cannot convert object to primitive value''))),
        \<lparr>store = base_state(''loading'' \<mapsto> VBool True, ''error'' \<mapsto> VNull),
         trace = [SetState [(''loading'', VBool True), (''error'', VNull)],
                  WrapperCall (ApiDelete ''/test-items/1'')]\<rparr>)"
  by (simp add: fetchAll_def fetchAll_resume_def fetchOne_def fetchOne_resume_def
      create_def create_resume_def update_def update_resume_def remove_def remove_resume_def
      begin_defs catch_block_def start_patch_def set_state_def issue_def mocked_def fresh_def
      Let_def map_add_def item_path_def dec_string_def digits.simps fun_eq_iff)

section \<open>Order of the effects of an action\<close>











section \<open>The HTTP wrapper\<close>

text \<open>
  Claim C8. Before the initialization call, each of the wrapper operations \<^verbatim>\<open>get\<close>,
  \<^verbatim>\<open>post\<close>, \<^verbatim>\<open>put\<close>, \<^verbatim>\<open>delete\<close> and \<^verbatim>\<open>postFile\<close>, with any path and arguments,
  rejects with the kind \<open>NotInitialized\<close> and a message that names the initialization
  call, and makes no network call.
\<close>

theorem uninitialized_wrapper_rejects:
  "fst (perform op uninitialized)
     = Inl (NotInitialized ''apiClient not initialized. Call initApiClient(config) first.'')
   \<and> network_calls (snd (perform op uninitialized)) = []
   \<and> snd (perform op uninitialized) = uninitialized"
  by (simp add: perform_def request_def uninitialized_def not_initialized_message_def)

theorem uninitialized_wrapper_rejects_witness:
  "fst (perform (OpPostFile ''/test'' ''form'') uninitialized)
     = Inl (NotInitialized ''apiClient not initialized. Call initApiClient(config) first.'')
   \<and> network_calls (snd (perform (OpGet ''/test'' (None :: string option)) uninitialized)) = []"
  using uninitialized_wrapper_rejects [of "OpPostFile ''/test'' ''form''"]
    uninitialized_wrapper_rejects [of "OpGet ''/test'' (None :: string option)"]
  by (simp add: uninitialized_def)

text \<open>
  Claim C9. On an initialized wrapper, when the transport fails, an operation makes its one
  network call and rejects: with the kind \<open>ApiError\<close> and the body of the server's response
  when the failure carries a response; else with the kind \<open>NetworkError\<close> and the message
  \<^verbatim>\<open>No response from server\<close> when the request was sent; else with the kind
  \<open>RequestSetupError\<close> and the message \<^verbatim>\<open>Request failed: \<close> followed by the failure's
  own message.
\<close>

theorem initialized_wrapper_normalizes_failures:
  assumes "t (wire op) = Inl f"
  shows "(response f = Some (status, body)
            \<longrightarrow> fst (perform op (initApiClient t w)) = Inl (ApiError body))
       \<and> (response f = None \<and> request_sent f
            \<longrightarrow> fst (perform op (initApiClient t w)) = Inl (NetworkError ''No response from server''))
       \<and> (response f = None \<and> \<not> request_sent f
            \<longrightarrow> fst (perform op (initApiClient t w))
                  = Inl (RequestSetupError (''Request failed: '' @ failure_message f)))
       \<and> network_calls (snd (perform op (initApiClient t w))) = network_calls w @ [wire op]"
  using assms
  by (simp add: perform_def request_def initApiClient_def handleError_def Let_def)

theorem initialized_wrapper_normalizes_failures_witness:
  "fst (perform (OpGet ''/users'' None)
          (initApiClient
             (\<lambda>r. Inl \<lparr>response = Some (404, ''Not Found''), request_sent = True,
                        failure_message = ''Request failed with status code 404''\<rparr>)
             uninitialized))
     = Inl (ApiError ''Not Found'')
   \<and> fst (perform (OpGet ''/users'' None)
          (initApiClient
             (\<lambda>r. Inl \<lparr>response = (None :: (nat \<times> string) option), request_sent = True,
                        failure_message = ''Network Error''\<rparr>)
             uninitialized))
     = Inl (NetworkError ''No response from server'')
   \<and> fst (perform (OpGet ''/users'' None)
          (initApiClient
             (\<lambda>r. Inl \<lparr>response = (None :: (nat \<times> string) option), request_sent = False,
                        failure_message = ''Failed to setup request''\<rparr>)
             uninitialized))
     = Inl (RequestSetupError ''Request failed: Failed to setup request'')
   \<and> network_calls (snd (perform (OpGet ''/users'' None)
          (initApiClient
             (\<lambda>r. Inl \<lparr>response = Some (404, ''Not Found''), request_sent = True,
                        failure_message = ''Request failed with status code 404''\<rparr>)
             uninitialized)))
     = [NetRequest GET ''/users'' None]"
  using initialized_wrapper_normalizes_failures
          [of "\<lambda>r. Inl \<lparr>response = Some (404, ''Not Found''), request_sent = True,
                        failure_message = ''Request failed with status code 404''\<rparr>"
              "OpGet ''/users'' None" _ 404 "''Not Found''" uninitialized]
        initialized_wrapper_normalizes_failures
          [of "\<lambda>r. Inl \<lparr>response = (None :: (nat \<times> string) option), request_sent = True,
                        failure_message = ''Network Error''\<rparr>"
              "OpGet ''/users'' None" _ 0 "''''" uninitialized]
        initialized_wrapper_normalizes_failures
          [of "\<lambda>r. Inl \<lparr>response = (None :: (nat \<times> string) option), request_sent = False,
                        failure_message = ''Failed to setup request''\<rparr>"
              "OpGet ''/users'' None" _ 0 "''''" uninitialized]
  by (simp add: uninitialized_def)

end
